theory Spec2Isabelle
  imports Main "HOL-Library.Sublist"
begin

section \<open>JavaScript strings\<close>

text \<open>
  A JavaScript string is a sequence of UTF-16 code units; \<open>length\<close>, \<open>slice\<close>,
  \<open>startsWith\<close> and the regular expressions of \<^verbatim>\<open>src/api/generate.ts\<close> (none has the
  \<open>u\<close> flag) all work on code units. A code unit is modelled as a natural number
  (below 65536 in every real string), so that the Chinese phrases of the source can be
  written down. \<open>ascii\<close> embeds an ASCII literal.
\<close>

type_synonym ustring = "nat list"

definition ascii :: "string \<Rightarrow> ustring" where
  "ascii s = map of_char s"

text \<open>
  \<open>String.prototype.trim\<close> removes leading and trailing WhiteSpace and LineTerminator
  code points (ECMAScript 2023, 22.1.3.32): TAB, LF, VT, FF, CR, SPACE, NBSP, U+1680,
  U+2000..U+200A, U+2028, U+2029, U+202F, U+205F, U+3000 and U+FEFF.
\<close>

definition isWhiteSpace :: "nat \<Rightarrow> bool" where
  "isWhiteSpace c \<longleftrightarrow>
     c = 9 \<or> c = 10 \<or> c = 11 \<or> c = 12 \<or> c = 13 \<or> c = 32 \<or> c = 160 \<or> c = 5760 \<or>
     (8192 \<le> c \<and> c \<le> 8202) \<or> c = 8232 \<or> c = 8233 \<or> c = 8239 \<or> c = 8287 \<or>
     c = 12288 \<or> c = 65279"

definition trim :: "ustring \<Rightarrow> ustring" where
  "trim s = rev (dropWhile isWhiteSpace (rev (dropWhile isWhiteSpace s)))"

definition startsWith :: "ustring \<Rightarrow> ustring \<Rightarrow> bool" where
  "startsWith s p \<longleftrightarrow> take (length p) s = p"

definition endsWith :: "ustring \<Rightarrow> ustring \<Rightarrow> bool" where
  "endsWith s p \<longleftrightarrow> startsWith (rev s) (rev p)"

fun includesStr :: "ustring \<Rightarrow> ustring \<Rightarrow> bool" where
  "includesStr [] p = (p = [])"
| "includesStr (c # cs) p = (startsWith (c # cs) p \<or> includesStr cs p)"

section \<open>normalizeModel\<close>

text \<open>
  \<^verbatim>\<open>/^\d+(?:\.\d+)*$/\<close>: \<open>\d\<close> is \<open>[0-9]\<close>, \<open>$\<close> (no \<open>m\<close> flag) is the end of the
  input. \<open>digitGroups seen s\<close> reads the rest \<open>s\<close> of the input; \<open>seen\<close> tells whether
  the current group already has a digit.
\<close>

definition isDigit :: "nat \<Rightarrow> bool" where
  "isDigit c \<longleftrightarrow> 48 \<le> c \<and> c \<le> 57"

fun digitGroups :: "bool \<Rightarrow> ustring \<Rightarrow> bool" where
  "digitGroups seen [] = seen"
| "digitGroups seen (c # cs) =
     (if isDigit c then digitGroups True cs else c = 46 \<and> seen \<and> digitGroups False cs)"

definition matchDottedNumeric :: "ustring \<Rightarrow> bool" where
  "matchDottedNumeric m = digitGroups False m"

text \<open>
  \<^verbatim>\<open>/^4o(?:-.+)?$/\<close>: without the \<open>s\<close> flag, \<open>.\<close> matches every code unit but the
  line terminators LF, CR, U+2028 and U+2029.
\<close>

definition isLineTerminator :: "nat \<Rightarrow> bool" where
  "isLineTerminator c \<longleftrightarrow> c = 10 \<or> c = 13 \<or> c = 8232 \<or> c = 8233"

definition match4o :: "ustring \<Rightarrow> bool" where
  "match4o m \<longleftrightarrow>
     m = ascii ''4o'' \<or>
     (startsWith m (ascii ''4o-'') \<and> drop 3 m \<noteq> [] \<and>
      list_all (\<lambda>c. \<not> isLineTerminator c) (drop 3 m))"

text \<open>
  \<open>normalizeModel\<close> (lines 9-19) on a string, for which \<open>String(input || '')\<close> is
  the string itself. The handler passes \<open>body.model\<close>, which need not be a string:
  there the coercion of line 10 is \<open>stringOr\<close> in \<open>readFields\<close> below.
\<close>

definition normalizeModel :: "ustring \<Rightarrow> ustring" where
  "normalizeModel input =
     (let m = trim input in
      if m = [] then m
      else if startsWith m (ascii ''gpt-'') \<or> startsWith m (ascii ''o1'') then m
      else if startsWith m (ascii ''gpt'') then ascii ''gpt-'' @ drop (length (ascii ''gpt'')) m
      else if matchDottedNumeric m then ascii ''gpt-'' @ m
      else if match4o m then ascii ''gpt-'' @ m
      else m)"

section \<open>getModelFallbacks\<close>

text \<open>The \<open>if\<close> chain of lines 27-39: what is pushed on \<open>fallbacks\<close>.\<close>

definition familyCandidates :: "ustring \<Rightarrow> ustring list" where
  "familyCandidates m =
     (if startsWith m (ascii ''gpt-4.1'') then
        [ascii ''gpt-4o-mini'', ascii ''gpt-4o'', ascii ''gpt-4.1-mini'']
      else if startsWith m (ascii ''gpt-4o'') then [ascii ''gpt-4o-mini'', ascii ''gpt-4o'']
      else if startsWith m (ascii ''gpt-4'') then [ascii ''gpt-4o-mini'', ascii ''gpt-4o'']
      else if startsWith m (ascii ''o1'') then [ascii ''gpt-4o-mini'', ascii ''gpt-4o'']
      else if includesStr m (ascii ''gemini-2.0-flash'') then
        [ascii ''gemini-1.5-flash'', ascii ''gemini-1.5-pro'']
      else if includesStr m (ascii ''gemini'') then
        [ascii ''gemini-1.5-flash'', ascii ''gemini-1.5-pro'', ascii ''gemini-2.0-flash-exp'']
      else [])"

text \<open>
  \<open>Array.from(new Set(xs))\<close>: a \<open>Set\<close> keeps insertion order and ignores the insertion
  of a member it already has.
\<close>

definition arrayFromSet :: "'a list \<Rightarrow> 'a list" where
  "arrayFromSet xs = foldl (\<lambda>acc x. if x \<in> set acc then acc else acc @ [x]) [] xs"

definition getModelFallbacks :: "ustring \<Rightarrow> ustring list" where
  "getModelFallbacks model =
     (let m = trim model in
      if m = [] then []
      else arrayFromSet (filter (\<lambda>x. x \<noteq> [] \<and> x \<noteq> m) (familyCandidates m)))"

text \<open>
  The table of section 4.4 of the specification, in its own words: rows of a test on
  the model and the candidates in order; the first row whose test holds wins, and no row
  gives the empty list.
\<close>

definition familyTable :: "((ustring \<Rightarrow> bool) \<times> ustring list) list" where
  "familyTable =
     [(\<lambda>m. startsWith m (ascii ''gpt-4.1''),
         [ascii ''gpt-4o-mini'', ascii ''gpt-4o'', ascii ''gpt-4.1-mini'']),
      (\<lambda>m. startsWith m (ascii ''gpt-4o''), [ascii ''gpt-4o-mini'', ascii ''gpt-4o'']),
      (\<lambda>m. startsWith m (ascii ''gpt-4''), [ascii ''gpt-4o-mini'', ascii ''gpt-4o'']),
      (\<lambda>m. startsWith m (ascii ''o1''), [ascii ''gpt-4o-mini'', ascii ''gpt-4o'']),
      (\<lambda>m. includesStr m (ascii ''gemini-2.0-flash''),
         [ascii ''gemini-1.5-flash'', ascii ''gemini-1.5-pro'']),
      (\<lambda>m. includesStr m (ascii ''gemini''),
         [ascii ''gemini-1.5-flash'', ascii ''gemini-1.5-pro'', ascii ''gemini-2.0-flash-exp''])]"

fun firstMatch :: "(('a \<Rightarrow> bool) \<times> 'b list) list \<Rightarrow> 'a \<Rightarrow> 'b list" where
  "firstMatch [] m = []"
| "firstMatch ((t, cs) # rows) m = (if t m then cs else firstMatch rows m)"

text \<open>Deduplication that keeps the first occurrence of every element, by recursion.\<close>

fun firstOccurrences :: "'a list \<Rightarrow> 'a list" where
  "firstOccurrences [] = []"
| "firstOccurrences (x # xs) = x # removeAll x (firstOccurrences xs)"

section \<open>JSON values and the JavaScript operators the handler applies to them\<close>

text \<open>
  What \<open>JSON.parse\<close> returns. The type \<open>'n\<close> stands for JavaScript's numbers (IEEE
  doubles), of which the handler only observes truthiness and the conversion to a
  string; both are taken from the platform. An object is the list of its own properties
  (\<open>JSON.parse\<close> creates own data properties only). \<open>undefined\<close> is \<open>None\<close> in an
  optional value.
\<close>

datatype 'n json =
    JNull
  | JBool bool
  | JNum 'n
  | JStr ustring
  | JArr "'n json list"
  | JObj "(ustring \<times> 'n json) list"

text \<open>
  \<open>v?.name\<close> and \<open>v.name\<close> (for a \<open>v\<close> that is not \<open>null\<close> or \<open>undefined\<close>) for
  the names the handler reads (\<open>error\<close>, \<open>message\<close>, \<open>choices\<close>, \<open>content\<close>,
  \<open>candidates\<close>, \<open>parts\<close>, \<open>text\<close>, and of the request body \<open>model\<close>,
  \<open>systemInstruction\<close>, \<open>userPrompt\<close>, \<open>enableThinking\<close>, \<open>proxyEndpoint\<close>):
  none of them is a property of
  \<open>Object.prototype\<close>, \<open>Array.prototype\<close>, \<open>String.prototype\<close>,
  \<open>Number.prototype\<close> or \<open>Boolean.prototype\<close>, so only an object with that own
  property gives a value.
\<close>

fun getProp :: "'n json option \<Rightarrow> ustring \<Rightarrow> 'n json option" where
  "getProp (Some (JObj kv)) k = map_of kv k"
| "getProp _ k = None"

text \<open>\<open>v?.[0]\<close>: the first element of an array, the first code unit of a string, the
  property \<open>"0"\<close> of an object.\<close>

fun getIndex0 :: "'n json option \<Rightarrow> 'n json option" where
  "getIndex0 (Some (JArr xs)) = (case xs of [] \<Rightarrow> None | x # _ \<Rightarrow> Some x)"
| "getIndex0 (Some (JStr s)) = (case s of [] \<Rightarrow> None | c # _ \<Rightarrow> Some (JStr [c]))"
| "getIndex0 (Some (JObj kv)) = map_of kv (ascii ''0'')"
| "getIndex0 _ = None"

text \<open>ToBoolean; \<open>nz\<close> tells whether a number is truthy (neither zero nor NaN).\<close>

fun truthy :: "('n \<Rightarrow> bool) \<Rightarrow> 'n json option \<Rightarrow> bool" where
  "truthy nz None = False"
| "truthy nz (Some JNull) = False"
| "truthy nz (Some (JBool b)) = b"
| "truthy nz (Some (JNum n)) = nz n"
| "truthy nz (Some (JStr s)) = (s \<noteq> [])"
| "truthy nz (Some (JArr xs)) = True"
| "truthy nz (Some (JObj kv)) = True"

text \<open>\<open>a || b\<close>, and \<open>a || v\<close> for a right operand that is never \<open>undefined\<close>.\<close>

definition orElse :: "('n \<Rightarrow> bool) \<Rightarrow> 'n json option \<Rightarrow> 'n json option \<Rightarrow> 'n json option" where
  "orElse nz a b = (if truthy nz a then a else b)"

definition orElseV :: "('n \<Rightarrow> bool) \<Rightarrow> 'n json option \<Rightarrow> 'n json \<Rightarrow> 'n json" where
  "orElseV nz a v = (case a of None \<Rightarrow> v | Some x \<Rightarrow> if truthy nz (Some x) then x else v)"

text \<open>
  ToString (ECMAScript 7.1.17), \<open>None\<close> when it throws a TypeError. An array is joined
  with commas (\<open>Array.prototype.toString\<close> calls \<open>join\<close>, which writes \<open>null\<close> as the
  empty string). An object is converted by OrdinaryToPrimitive: it reads the property
  \<open>toString\<close>; an own property of that name from JSON is never callable, and then
  \<open>Object.prototype.valueOf\<close> returns the object itself, so the conversion throws;
  otherwise \<open>Object.prototype.toString\<close> gives \<open>[object Object]\<close>. \<open>joinElems\<close> is
  \<open>Array.prototype.join\<close> with the separator \<open>sep\<close>; \<open>ns\<close> is Number::toString.
\<close>

fun toStr :: "('n \<Rightarrow> ustring) \<Rightarrow> 'n json \<Rightarrow> ustring option"
  and joinElems :: "('n \<Rightarrow> ustring) \<Rightarrow> ustring \<Rightarrow> 'n json list \<Rightarrow> ustring option" where
  "toStr ns JNull = Some (ascii ''null'')"
| "toStr ns (JBool b) = Some (if b then ascii ''true'' else ascii ''false'')"
| "toStr ns (JNum n) = Some (ns n)"
| "toStr ns (JStr s) = Some s"
| "toStr ns (JArr xs) = joinElems ns (ascii '','') xs"
| "toStr ns (JObj kv) =
     (if map_of kv (ascii ''toString'') = None then Some (ascii ''[object Object]'') else None)"
| "joinElems ns sep [] = Some []"
| "joinElems ns sep (x # xs) =
     (case (if x = JNull then Some [] else toStr ns x) of
        None \<Rightarrow> None
      | Some a \<Rightarrow>
          (if xs = [] then Some a
           else (case joinElems ns sep xs of None \<Rightarrow> None | Some b \<Rightarrow> Some (a @ sep @ b))))"

section \<open>The platform\<close>

text \<open>
  \<open>URL\<close>, \<open>fetch\<close>, \<open>JSON.parse\<close> and the number primitives belong to the runtime, not
  to the repository: the handler is modelled over any implementation of them.
  \<open>parseURL s\<close> is \<open>new URL(s)\<close>: the message of the TypeError it throws, or the URL,
  of which the handler reads \<open>hostname\<close> and \<open>toString()\<close> (\<open>href\<close>). \<open>fetch\<close> takes
  and returns the state \<open>'w\<close> of the world outside, so that an upstream may answer the
  same request differently each time.
\<close>

record url =
  hostname :: ustring
  href :: ustring

text \<open>The two payload shapes of lines 122-131 and 184-206; what is not a field here
  is constant in the source.\<close>

datatype upstream_body =
    ChatCompletion ustring ustring ustring
  | GenerateContent ustring ustring bool

record fetch_request =
  fetchUrl :: ustring
  fetchHeaders :: "(ustring \<times> ustring) list"
  fetchBody :: upstream_body

record upstream_response =
  resStatus :: nat
  resContentType :: "ustring option"
  resText :: ustring

text \<open>\<open>Threw msg\<close>: \<open>fetch\<close> or \<open>upstreamRes.text()\<close> rejected, with \<open>msg\<close> what the
  \<open>catch\<close> block of lines 254-256 computes from the exception.\<close>

datatype fetch_outcome = Threw ustring | Resp upstream_response

type_synonym exchange = "fetch_request \<times> fetch_outcome"

record ('w, 'n) env =
  parseURL :: "ustring \<Rightarrow> ustring + url"
  fetch :: "fetch_request \<Rightarrow> 'w \<Rightarrow> fetch_outcome \<times> 'w"
  jsonParse :: "ustring \<Rightarrow> 'n json option"
  numTruthy :: "'n \<Rightarrow> bool"
  numToString :: "'n \<Rightarrow> ustring"
  typeErrorMessage :: ustring

text \<open>\<open>Response.ok\<close>: the status is in the range 200-299.\<close>

definition resOk :: "upstream_response \<Rightarrow> bool" where
  "resOk r \<longleftrightarrow> 200 \<le> resStatus r \<and> resStatus r \<le> 299"

text \<open>The immediately invoked function of lines 142-148 and 224-230.\<close>

definition parseOrNull :: "('w, 'n) env \<Rightarrow> ustring \<Rightarrow> 'n json" where
  "parseOrNull env raw = (case jsonParse env raw of None \<Rightarrow> JNull | Some j \<Rightarrow> j)"

section \<open>getUpstreamBase\<close>

definition allowedHosts :: "ustring set" where
  "allowedHosts = {ascii ''api.vectorengine.ai'', ascii ''generativelanguage.googleapis.com''}"

text \<open>\<^verbatim>\<open>endpoint.replace(/\/+$/, '')\<close>: the leftmost match of \<open>/+$\<close> is the whole run of
  slashes at the end.\<close>

definition stripTrailingSlashes :: "ustring \<Rightarrow> ustring" where
  "stripTrailingSlashes s = rev (dropWhile (\<lambda>c. c = 47) (rev s))"

definition getUpstreamBase :: "('w, 'n) env \<Rightarrow> ustring \<Rightarrow> ustring + ustring" where
  "getUpstreamBase env endpoint =
     (case parseURL env endpoint of
        Inl _ \<Rightarrow> Inl (ascii ''Invalid proxyEndpoint'')
      | Inr u \<Rightarrow>
          if hostname u \<notin> allowedHosts then Inl (ascii ''proxyEndpoint host not allowed'')
          else Inr (stripTrailingSlashes endpoint))"

section \<open>The handler\<close>

text \<open>
  The inbound request as the handler reads it: the method, the \<open>authorization\<close>
  header when it is a string, and \<open>req.body\<close>, which is whatever the runtime parsed
  from the request (any JSON value, or absent); the type \<open>Body\<close> is erased at run time.
\<close>

record 'n request =
  httpMethod :: ustring
  authorization :: "ustring option"
  reqBody :: "'n json option"

text \<open>What is passed to \<open>res.status(..).json(..)\<close>: \<open>{error}\<close>, \<open>{text, usedModel}\<close>
  or \<open>{error, upstreamStatus, upstreamContentType, detail, triedModels}\<close>.\<close>

datatype 'n reply_body =
    ErrorOnly ustring
  | Generated "'n json" ustring
  | UpstreamFailure "'n json" nat ustring "'n json" "ustring list"

record 'n reply =
  statusCode :: nat
  jsonBody :: "'n reply_body"

text \<open>How a call of the handler ends: with a reply, or with an exception that no
  \<open>catch\<close> block of the handler catches (its message is kept).\<close>

datatype 'n outcome = Replied "'n reply" | Uncaught ustring

text \<open>\<open>String(x || '')\<close> for a string or absent \<open>x\<close>.\<close>

definition strOrEmpty :: "ustring option \<Rightarrow> ustring" where
  "strOrEmpty x = (case x of None \<Rightarrow> [] | Some s \<Rightarrow> s)"

text \<open>\<open>String(v || d)\<close> for any value \<open>v\<close>: \<open>None\<close> when the conversion to a string
  throws a TypeError.\<close>

definition stringOr :: "('w, 'n) env \<Rightarrow> 'n json option \<Rightarrow> ustring \<Rightarrow> ustring option" where
  "stringOr env v d =
     (case v of
        None \<Rightarrow> Some d
      | Some x \<Rightarrow> if truthy (numTruthy env) (Some x) then toStr (numToString env) x else Some d)"

definition defaultEndpoint :: ustring where
  "defaultEndpoint = ascii ''https://api.vectorengine.ai''"

text \<open>Lines 70-72.\<close>

definition rawTokenOf :: "ustring option \<Rightarrow> ustring" where
  "rawTokenOf auth =
     (let token = strOrEmpty auth in
      if startsWith token (ascii ''Bearer '') then trim (drop (length (ascii ''Bearer '')) token)
      else trim token)"

text \<open>
  The regular expressions of lines 160-161 have the flag \<open>i\<close> and not \<open>u\<close>: two code
  units match when Canonicalize (ECMAScript 22.2.5.6) maps them to the same code unit. It
  maps \<open>a-z\<close> to \<open>A-Z\<close>, never maps a code unit from 128 on to one below 128, and
  neither moves nor reaches the Chinese characters of the patterns; on the code units
  that can match a pattern it is \<open>canonicalize\<close>. \<open>test\<close> searches the whole string.
\<close>

definition canonicalize :: "nat \<Rightarrow> nat" where
  "canonicalize c = (if 97 \<le> c \<and> c \<le> 122 then c - 32 else c)"

definition testCI :: "ustring \<Rightarrow> ustring \<Rightarrow> bool" where
  "testCI pat s = includesStr (map canonicalize s) (map canonicalize pat)"

definition notFoundPhrases :: "ustring list" where
  "notFoundPhrases =
     [ascii ''not found'', ascii ''does not exist'', [19981, 23384, 22312],
      [26410, 25214, 21040], [26410, 21551, 29992], [23578, 26410, 19978, 32447],
      [26410, 24320, 25918], ascii ''No available channels'']"

text \<open>\<open>raw.trim() ? raw.slice(0, 500) : ''\<close>.\<close>

definition rawSlice :: "ustring \<Rightarrow> ustring" where
  "rawSlice raw = (if trim raw \<noteq> [] then take 500 raw else [])"

text \<open>Lines 156-161. The three \<open>test\<close> calls convert \<open>upstreamMessage || ''\<close> to a
  string, the first of them only when the status is 404; \<open>None\<close> when that throws.\<close>

definition looksLikeModelNotFound ::
  "('w, 'n) env \<Rightarrow> nat \<Rightarrow> 'n json \<Rightarrow> ustring \<Rightarrow> bool option" where
  "looksLikeModelNotFound env st j raw =
     (let upstreamMessage =
            orElseV (numTruthy env)
              (orElse (numTruthy env) (getProp (getProp (Some j) (ascii ''error'')) (ascii ''message''))
                 (getProp (Some j) (ascii ''message'')))
              (JStr (rawSlice raw))
      in if st \<noteq> 404 then Some False
         else (case toStr (numToString env) (orElseV (numTruthy env) (Some upstreamMessage) (JStr [])) of
                 None \<Rightarrow> None
               | Some s \<Rightarrow>
                   Some ((testCI (ascii ''model'') s \<or> testCI [27169, 22411] s) \<and>
                         list_ex (\<lambda>p. testCI p s) notFoundPhrases)))"

text \<open>Lines 166-170 and 233-237; lines 176 and 243 (\<open>json ?? raw.slice(0, 2000)\<close>).\<close>

definition upstreamMessage :: "('w, 'n) env \<Rightarrow> 'n json \<Rightarrow> ustring \<Rightarrow> 'n json" where
  "upstreamMessage env j raw =
     orElseV (numTruthy env)
       (Some (orElseV (numTruthy env)
          (orElse (numTruthy env) (getProp (getProp (Some j) (ascii ''error'')) (ascii ''message''))
             (getProp (Some j) (ascii ''message'')))
          (JStr (rawSlice raw))))
       (JStr (ascii ''Upstream error''))"

definition detailOf :: "'n json \<Rightarrow> ustring \<Rightarrow> 'n json" where
  "detailOf j raw = (if j = JNull then JStr (take 2000 raw) else j)"

definition failureReply ::
  "('w, 'n) env \<Rightarrow> ustring \<Rightarrow> nat \<Rightarrow> ustring \<Rightarrow> ustring \<Rightarrow> 'n json \<Rightarrow> 'n reply" where
  "failureReply env mdl st ctype raw j =
     \<lparr>statusCode = st,
      jsonBody = UpstreamFailure (upstreamMessage env j raw) st ctype (detailOf j raw)
        (mdl # getModelFallbacks mdl)\<rparr>"

text \<open>The variables \<open>lastStatus\<close>, \<open>lastRaw\<close>, \<open>lastContentType\<close>, \<open>lastJson\<close>.\<close>

record 'n last =
  lastStatus :: nat
  lastRaw :: ustring
  lastContentType :: ustring
  lastJson :: "'n json"

text \<open>How the \<open>for\<close> loop of lines 121-164 is left: by \<open>return\<close> after a reply, by
  \<open>break\<close> or exhaustion, or by an exception.\<close>

datatype 'n loop_exit = Returned "'n reply" | Fell "'n last" | Raised ustring

text \<open>\<open>lastJson?.choices?.[0]?.message?.content || ''\<close>.\<close>

definition choiceText :: "('w, 'n) env \<Rightarrow> 'n json \<Rightarrow> 'n json" where
  "choiceText env j =
     orElseV (numTruthy env)
       (getProp (getProp (getIndex0 (getProp (Some j) (ascii ''choices''))) (ascii ''message''))
          (ascii ''content''))
       (JStr [])"

fun tryModels ::
  "('w, 'n) env \<Rightarrow> (ustring \<Rightarrow> fetch_request) \<Rightarrow> ustring list \<Rightarrow> 'n last \<Rightarrow> 'w \<Rightarrow>
     'n loop_exit \<times> exchange list" where
  "tryModels env mk [] st w = (Fell st, [])"
| "tryModels env mk (m # ms) st w =
     (case fetch env (mk m) w of
        (Threw e, w') \<Rightarrow> (Raised e, [(mk m, Threw e)])
      | (Resp r, w') \<Rightarrow>
          (let st' = \<lparr>lastStatus = resStatus r, lastRaw = resText r,
                      lastContentType = strOrEmpty (resContentType r),
                      lastJson = parseOrNull env (resText r)\<rparr>
           in if resOk r then
                (Returned \<lparr>statusCode = 200,
                   jsonBody = Generated (choiceText env (lastJson st')) m\<rparr>, [(mk m, Resp r)])
              else (case looksLikeModelNotFound env (resStatus r) (lastJson st') (lastRaw st') of
                      None \<Rightarrow> (Raised (typeErrorMessage env), [(mk m, Resp r)])
                    | Some False \<Rightarrow> (Fell st', [(mk m, Resp r)])
                    | Some True \<Rightarrow>
                        (case tryModels env mk ms st' w' of
                           (ex, tr) \<Rightarrow> (ex, (mk m, Resp r) # tr)))))"

text \<open>Lines 104-110: the URL of the chat completions endpoint.\<close>

definition chatCompletionsUrl :: "ustring \<Rightarrow> ustring" where
  "chatCompletionsUrl endpoint =
     (let baseUrl =
            (if endsWith endpoint (ascii ''/v1beta'') then
               take (length endpoint - length (ascii ''/v1beta'')) endpoint @ ascii ''/v1''
             else if \<not> endsWith endpoint (ascii ''/v1'') then endpoint @ ascii ''/v1''
             else endpoint)
      in baseUrl @ ascii ''/chat/completions'')"

definition baseHeaders :: "(ustring \<times> ustring) list" where
  "baseHeaders = [(ascii ''Content-Type'', ascii ''application/json''),
                  (ascii ''Accept'', ascii ''application/json'')]"

definition bearerHeaders :: "ustring \<Rightarrow> (ustring \<times> ustring) list" where
  "bearerHeaders rawToken =
     baseHeaders @ [(ascii ''Authorization'', ascii ''Bearer '' @ rawToken),
                    (ascii ''X-API-Key'', rawToken)]"

text \<open>Lines 103-179: the OpenAI branch. An exception is \<open>Inl\<close> of its message.\<close>

definition openaiBranch ::
  "('w, 'n) env \<Rightarrow> ustring \<Rightarrow> ustring \<Rightarrow> ustring \<Rightarrow> ustring \<Rightarrow> ustring \<Rightarrow> 'w \<Rightarrow>
     (ustring + 'n reply) \<times> exchange list" where
  "openaiBranch env endpoint rawToken mdl si up w =
     (case parseURL env (chatCompletionsUrl endpoint) of
        Inl msg \<Rightarrow> (Inl msg, [])
      | Inr urlObj \<Rightarrow>
          (case tryModels env
                  (\<lambda>m. \<lparr>fetchUrl = href urlObj, fetchHeaders = bearerHeaders rawToken,
                         fetchBody = ChatCompletion m si up\<rparr>)
                  (mdl # getModelFallbacks mdl)
                  \<lparr>lastStatus = 500, lastRaw = [], lastContentType = [], lastJson = JNull\<rparr> w of
             (Returned rp, tr) \<Rightarrow> (Inr rp, tr)
           | (Raised msg, tr) \<Rightarrow> (Inl msg, tr)
           | (Fell st, tr) \<Rightarrow>
               (Inr (failureReply env mdl (lastStatus st) (lastContentType st) (lastRaw st)
                       (lastJson st)), tr)))"

text \<open>Lines 249-251: the text of a Gemini response, \<open>None\<close> when \<open>join\<close> throws.\<close>

definition partsText :: "('w, 'n) env \<Rightarrow> 'n json \<Rightarrow> ustring option" where
  "partsText env j =
     (case getProp (getProp (getIndex0 (getProp (Some j) (ascii ''candidates''))) (ascii ''content''))
             (ascii ''parts'') of
        Some (JArr ps) \<Rightarrow>
          joinElems (numToString env) []
            (map (\<lambda>p. orElseV (numTruthy env) (getProp (Some p) (ascii ''text'')) (JStr [])) ps)
      | _ \<Rightarrow> Some [])"

text \<open>Lines 181-253: the Gemini branch and the code after the \<open>if\<close>.\<close>

definition geminiBranch ::
  "('w, 'n) env \<Rightarrow> ustring \<Rightarrow> ustring \<Rightarrow> ustring \<Rightarrow> ustring \<Rightarrow> ustring \<Rightarrow> bool \<Rightarrow> 'w \<Rightarrow>
     (ustring + 'n reply) \<times> exchange list" where
  "geminiBranch env endpoint rawToken mdl si up thinking w =
     (let baseUrl = (if includesStr endpoint (ascii ''/v1beta'') then endpoint
                     else endpoint @ ascii ''/v1beta'')
      in case parseURL env (baseUrl @ ascii ''/models/'' @ mdl @ ascii '':generateContent'') of
           Inl msg \<Rightarrow> (Inl msg, [])
         | Inr urlObj \<Rightarrow>
             (let supportsThinking = includesStr mdl (ascii ''thinking'');
                  rq = \<lparr>fetchUrl = href urlObj,
                        fetchHeaders =
                          (if hostname urlObj = ascii ''generativelanguage.googleapis.com''
                           then baseHeaders @ [(ascii ''x-goog-api-key'', rawToken)]
                           else bearerHeaders rawToken),
                        fetchBody = GenerateContent si up (thinking \<and> supportsThinking)\<rparr>
              in case fetch env rq w of
                   (Threw e, w') \<Rightarrow> (Inl e, [(rq, Threw e)])
                 | (Resp r, w') \<Rightarrow>
                     (let contentType = strOrEmpty (resContentType r);
                          rawText = resText r;
                          j = parseOrNull env rawText
                      in if \<not> resOk r then
                           (Inr (failureReply env mdl (resStatus r) contentType rawText j),
                            [(rq, Resp r)])
                         else (case partsText env j of
                                 None \<Rightarrow> (Inl (typeErrorMessage env), [(rq, Resp r)])
                               | Some t \<Rightarrow>
                                   (Inr \<lparr>statusCode = 200, jsonBody = Generated (JStr t) mdl\<rparr>,
                                    [(rq, Resp r)])))))"

text \<open>Lines 91-257: the \<open>try\<close> block.\<close>

definition isOpenAI :: "ustring \<Rightarrow> bool" where
  "isOpenAI mdl \<longleftrightarrow> startsWith mdl (ascii ''gpt'') \<or> startsWith mdl (ascii ''o1'')"

definition tryBlock ::
  "('w, 'n) env \<Rightarrow> ustring \<Rightarrow> ustring \<Rightarrow> ustring \<Rightarrow> ustring \<Rightarrow> ustring \<Rightarrow> bool \<Rightarrow> 'w \<Rightarrow>
     (ustring + 'n reply) \<times> exchange list" where
  "tryBlock env proxy rawToken mdl si up thinking w =
     (case getUpstreamBase env (if proxy = [] then defaultEndpoint else proxy) of
        Inl msg \<Rightarrow> (Inl msg, [])
      | Inr endpoint \<Rightarrow>
          if isOpenAI mdl then openaiBranch env endpoint rawToken mdl si up w
          else geminiBranch env endpoint rawToken mdl si up thinking w)"

text \<open>\<open>req.body || {}\<close> (line 74).\<close>

definition bodyOf :: "('w, 'n) env \<Rightarrow> 'n request \<Rightarrow> 'n json" where
  "bodyOf env req =
     (case reqBody req of
        None \<Rightarrow> JObj []
      | Some b \<Rightarrow> if truthy (numTruthy env) (Some b) then b else JObj [])"

text \<open>
  The variables \<open>model\<close>, \<open>systemInstruction\<close>, \<open>userPrompt\<close>, \<open>enableThinking\<close>
  and \<open>proxyEndpoint\<close> of lines 75-79. These lines stand before the \<open>try\<close>: when one
  of the four \<open>String(..)\<close> calls throws, no variable gets a value (\<open>None\<close>).
\<close>

record fields =
  fModel :: ustring
  fSystem :: ustring
  fPrompt :: ustring
  fThinking :: bool
  fProxy :: ustring

definition readFields :: "('w, 'n) env \<Rightarrow> 'n request \<Rightarrow> fields option" where
  "readFields env req =
     (let b = Some (bodyOf env req) in
      case stringOr env (getProp b (ascii ''model'')) [] of
        None \<Rightarrow> None
      | Some ms \<Rightarrow>
      (case stringOr env (getProp b (ascii ''systemInstruction'')) [] of
        None \<Rightarrow> None
      | Some si \<Rightarrow>
      (case stringOr env (getProp b (ascii ''userPrompt'')) [] of
        None \<Rightarrow> None
      | Some up \<Rightarrow>
      (case stringOr env (getProp b (ascii ''proxyEndpoint'')) defaultEndpoint of
        None \<Rightarrow> None
      | Some pe \<Rightarrow>
          Some \<lparr>fModel = normalizeModel ms, fSystem = si, fPrompt = up,
                fThinking = truthy (numTruthy env) (getProp b (ascii ''enableThinking'')),
                fProxy = trim pe\<rparr>))))"

text \<open>Lines 81-257: the two guards and the \<open>try\<close> statement with its \<open>catch\<close> block.\<close>

definition respond ::
  "('w, 'n) env \<Rightarrow> ustring \<Rightarrow> fields \<Rightarrow> 'w \<Rightarrow> 'n reply \<times> exchange list" where
  "respond env rawToken f w =
     (if fModel f = [] \<or> fSystem f = [] \<or> fPrompt f = [] then
        (\<lparr>statusCode = 400, jsonBody = ErrorOnly (ascii ''Missing required fields'')\<rparr>, [])
      else if rawToken = [] then
        (\<lparr>statusCode = 401, jsonBody = ErrorOnly (ascii ''Missing Proxy Token'')\<rparr>, [])
      else (case tryBlock env (fProxy f) rawToken (fModel f) (fSystem f) (fPrompt f)
                    (fThinking f) w of
              (Inl msg, tr) \<Rightarrow> (\<lparr>statusCode = 500, jsonBody = ErrorOnly msg\<rparr>, tr)
            | (Inr rp, tr) \<Rightarrow> (rp, tr)))"

text \<open>
  \<open>handler\<close> (lines 64-258) returns how the call ends and the exchanges with the
  upstream, in the order of the \<open>fetch\<close> calls.
\<close>

definition handler ::
  "('w, 'n) env \<Rightarrow> 'n request \<Rightarrow> 'w \<Rightarrow> 'n outcome \<times> exchange list" where
  "handler env req w =
     (if httpMethod req \<noteq> ascii ''POST'' then
        (Replied \<lparr>statusCode = 405, jsonBody = ErrorOnly (ascii ''Method not allowed'')\<rparr>, [])
      else
        (let rawToken = rawTokenOf (authorization req) in
         case readFields env req of
           None \<Rightarrow> (Uncaught (typeErrorMessage env), [])
         | Some f \<Rightarrow> (case respond env rawToken f w of (rp, tr) \<Rightarrow> (Replied rp, tr))))"

section \<open>Names for the statements\<close>

text \<open>What lines 70-79 compute from a request, each on its own: \<open>String(body.model || '')\<close>
  and the variables \<open>model\<close>, \<open>systemInstruction\<close>, \<open>userPrompt\<close>, \<open>enableThinking\<close>,
  \<open>proxyEndpoint\<close> and \<open>rawToken\<close> (\<open>None\<close> when the conversion throws), and the argument
  of \<open>getUpstreamBase\<close> in line 92.\<close>

definition modelString :: "('w, 'n) env \<Rightarrow> 'n request \<Rightarrow> ustring option" where
  "modelString env req = stringOr env (getProp (Some (bodyOf env req)) (ascii ''model'')) []"

definition requestModel :: "('w, 'n) env \<Rightarrow> 'n request \<Rightarrow> ustring option" where
  "requestModel env req = map_option normalizeModel (modelString env req)"

definition requestSystem :: "('w, 'n) env \<Rightarrow> 'n request \<Rightarrow> ustring option" where
  "requestSystem env req =
     stringOr env (getProp (Some (bodyOf env req)) (ascii ''systemInstruction'')) []"

definition requestPrompt :: "('w, 'n) env \<Rightarrow> 'n request \<Rightarrow> ustring option" where
  "requestPrompt env req =
     stringOr env (getProp (Some (bodyOf env req)) (ascii ''userPrompt'')) []"

definition requestThinking :: "('w, 'n) env \<Rightarrow> 'n request \<Rightarrow> bool" where
  "requestThinking env req =
     truthy (numTruthy env) (getProp (Some (bodyOf env req)) (ascii ''enableThinking''))"

definition requestProxy :: "('w, 'n) env \<Rightarrow> 'n request \<Rightarrow> ustring option" where
  "requestProxy env req =
     map_option trim
       (stringOr env (getProp (Some (bodyOf env req)) (ascii ''proxyEndpoint'')) defaultEndpoint)"

definition requestToken :: "'n request \<Rightarrow> ustring" where
  "requestToken req = rawTokenOf (authorization req)"

definition endpointOf :: "fields \<Rightarrow> ustring" where
  "endpointOf f = (if fProxy f = [] then defaultEndpoint else fProxy f)"

definition requestEndpoint :: "('w, 'n) env \<Rightarrow> 'n request \<Rightarrow> ustring option" where
  "requestEndpoint env req =
     map_option (\<lambda>p. if p = [] then defaultEndpoint else p) (requestProxy env req)"

text \<open>The URL that line 182 passes to \<open>new URL\<close>.\<close>

definition generateContentUrl :: "ustring \<Rightarrow> ustring \<Rightarrow> ustring" where
  "generateContentUrl endpoint mdl =
     (if includesStr endpoint (ascii ''/v1beta'') then endpoint else endpoint @ ascii ''/v1beta'')
       @ ascii ''/models/'' @ mdl @ ascii '':generateContent''"

text \<open>The three fixed replies of lines 66, 82 and 87.\<close>

definition methodNotAllowed :: "'n reply" where
  "methodNotAllowed = \<lparr>statusCode = 405, jsonBody = ErrorOnly (ascii ''Method not allowed'')\<rparr>"

definition missingFields :: "'n reply" where
  "missingFields = \<lparr>statusCode = 400, jsonBody = ErrorOnly (ascii ''Missing required fields'')\<rparr>"

definition missingToken :: "'n reply" where
  "missingToken = \<lparr>statusCode = 401, jsonBody = ErrorOnly (ascii ''Missing Proxy Token'')\<rparr>"

text \<open>What the handler computes from an upstream response \<open>r\<close>: the structured body,
  the test of lines 158-161, the failure reply of lines 172-178 and 239-245, and the
  success reply of line 152.\<close>

definition responseJson :: "('w, 'n) env \<Rightarrow> upstream_response \<Rightarrow> 'n json" where
  "responseJson env r = parseOrNull env (resText r)"

definition notFoundOf :: "('w, 'n) env \<Rightarrow> upstream_response \<Rightarrow> bool option" where
  "notFoundOf env r = looksLikeModelNotFound env (resStatus r) (responseJson env r) (resText r)"

definition failureOf :: "('w, 'n) env \<Rightarrow> ustring \<Rightarrow> upstream_response \<Rightarrow> 'n reply" where
  "failureOf env mdl r =
     failureReply env mdl (resStatus r) (strOrEmpty (resContentType r)) (resText r)
       (responseJson env r)"

definition chatReply :: "('w, 'n) env \<Rightarrow> ustring \<Rightarrow> upstream_response \<Rightarrow> 'n reply" where
  "chatReply env m r =
     \<lparr>statusCode = 200, jsonBody = Generated (choiceText env (responseJson env r)) m\<rparr>"

definition thrownReply :: "ustring \<Rightarrow> 'n reply" where
  "thrownReply msg = \<lparr>statusCode = 500, jsonBody = ErrorOnly msg\<rparr>"

definition lastOf :: "('w, 'n) env \<Rightarrow> upstream_response \<Rightarrow> 'n last" where
  "lastOf env r =
     \<lparr>lastStatus = resStatus r, lastRaw = resText r,
      lastContentType = strOrEmpty (resContentType r), lastJson = responseJson env r\<rparr>"

text \<open>How the loop is left after a last exchange with outcome \<open>out\<close> for the candidate
  \<open>m\<close>; \<open>exhausted\<close> tells whether \<open>m\<close> was the last candidate.\<close>

definition leftBy ::
  "('w, 'n) env \<Rightarrow> ustring \<Rightarrow> bool \<Rightarrow> fetch_outcome \<Rightarrow> 'n loop_exit \<Rightarrow> bool" where
  "leftBy env m exhausted out ex =
     (case out of
        Threw e \<Rightarrow> ex = Raised e
      | Resp r \<Rightarrow>
          if resOk r then ex = Returned (chatReply env m r)
          else (case notFoundOf env r of
                  None \<Rightarrow> ex = Raised (typeErrorMessage env)
                | Some False \<Rightarrow> ex = Fell (lastOf env r)
                | Some True \<Rightarrow> exhausted \<and> ex = Fell (lastOf env r)))"

text \<open>The same for the reply of the handler to a request with the model \<open>mdl\<close>.\<close>

definition repliedBy ::
  "('w, 'n) env \<Rightarrow> ustring \<Rightarrow> ustring \<Rightarrow> bool \<Rightarrow> fetch_outcome \<Rightarrow> 'n reply \<Rightarrow> bool" where
  "repliedBy env mdl m exhausted out rp =
     (case out of
        Threw e \<Rightarrow> rp = thrownReply e
      | Resp r \<Rightarrow>
          if resOk r then rp = chatReply env m r
          else (case notFoundOf env r of
                  None \<Rightarrow> rp = thrownReply (typeErrorMessage env)
                | Some False \<Rightarrow> rp = failureOf env mdl r
                | Some True \<Rightarrow> exhausted \<and> rp = failureOf env mdl r))"

text \<open>An exchange after which the loop goes on: a failure that looks like a model that
  was not found.\<close>

definition goesOn :: "('w, 'n) env \<Rightarrow> exchange \<Rightarrow> bool" where
  "goesOn env x =
     (case snd x of Threw e \<Rightarrow> False
      | Resp r \<Rightarrow> \<not> resOk r \<and> notFoundOf env r = Some True)"

text \<open>The model identifiers of the chat completion requests of a trace.\<close>

fun sentModel :: "exchange \<Rightarrow> ustring option" where
  "sentModel (rq, out) = (case fetchBody rq of ChatCompletion m si up \<Rightarrow> Some m
                          | GenerateContent si up th \<Rightarrow> None)"

section \<open>The specification's wording, for comparison with the code\<close>

text \<open>
  Section 4.8: the error message is the first of the structured body's
  \<open>error.message\<close>, its \<open>message\<close>, the raw body cut to 500 code units when it is not
  blank, and the fixed string. \<open>firstTruthy\<close> takes the first candidate that is present
  and truthy.
\<close>

fun firstTruthy :: "('n \<Rightarrow> bool) \<Rightarrow> 'n json option list \<Rightarrow> 'n json \<Rightarrow> 'n json" where
  "firstTruthy nz [] d = d"
| "firstTruthy nz (None # cs) d = firstTruthy nz cs d"
| "firstTruthy nz (Some v # cs) d = (if truthy nz (Some v) then v else firstTruthy nz cs d)"

definition preferredMessage :: "('w, 'n) env \<Rightarrow> 'n json \<Rightarrow> ustring \<Rightarrow> 'n json" where
  "preferredMessage env j raw =
     firstTruthy (numTruthy env)
       [getProp (getProp (Some j) (ascii ''error'')) (ascii ''message''),
        getProp (Some j) (ascii ''message''),
        (if trim raw \<noteq> [] then Some (JStr (take 500 raw)) else None)]
       (JStr (ascii ''Upstream error''))"

text \<open>Section 4.7: the concatenation of the \<open>text\<close> field of every part, for parts
  whose \<open>text\<close> is a string or absent.\<close>

fun textField :: "'n json \<Rightarrow> ustring option" where
  "textField p = (case getProp (Some p) (ascii ''text'') of
                    None \<Rightarrow> Some [] | Some (JStr s) \<Rightarrow> Some s | Some _ \<Rightarrow> None)"

definition concatTexts :: "'n json list \<Rightarrow> ustring" where
  "concatTexts ps = concat (map (\<lambda>p. case textField p of None \<Rightarrow> [] | Some s \<Rightarrow> s) ps)"

definition responseParts :: "'n json \<Rightarrow> 'n json option" where
  "responseParts j =
     getProp (getProp (getIndex0 (getProp (Some j) (ascii ''candidates''))) (ascii ''content''))
       (ascii ''parts'')"

section \<open>A test double of the platform\<close>

text \<open>
  For the concrete runs below: \<open>URL\<close> and \<open>JSON.parse\<close> are tables of the inputs that
  occur, with the results that the real ones give on them; \<open>fetch\<close> answers from a script,
  which is the state of the world; numbers are natural numbers, printed in decimal as
  Number::toString prints them.
\<close>

fun showNat :: "nat \<Rightarrow> ustring" where
  "showNat n = (if n < 10 then [48 + n] else showNat (n div 10) @ [48 + n mod 10])"

declare showNat.simps [simp del]

definition scriptedFetch ::
  "fetch_request \<Rightarrow> fetch_outcome list \<Rightarrow> fetch_outcome \<times> fetch_outcome list" where
  "scriptedFetch rq w =
     (case w of [] \<Rightarrow> (Threw (ascii ''fetch failed''), []) | out # rest \<Rightarrow> (out, rest))"

definition tableEnv ::
  "(ustring \<times> url) list \<Rightarrow> (ustring \<times> nat json) list \<Rightarrow> (fetch_outcome list, nat) env" where
  "tableEnv urls bodies =
     \<lparr>parseURL = (\<lambda>s. case map_of urls s of None \<Rightarrow> Inl (ascii ''Invalid URL'') | Some u \<Rightarrow> Inr u),
      fetch = scriptedFetch,
      jsonParse = map_of bodies,
      numTruthy = (\<lambda>n. n \<noteq> 0),
      numToString = showNat,
      typeErrorMessage = ascii ''Cannot convert object to primitive value''\<rparr>"

definition testUrls :: "(ustring \<times> url) list" where
  "testUrls =
     [(ascii ''https://api.vectorengine.ai'',
         \<lparr>hostname = ascii ''api.vectorengine.ai'', href = ascii ''https://api.vectorengine.ai/''\<rparr>),
      (ascii ''https://api.vectorengine.ai/v1/chat/completions'',
         \<lparr>hostname = ascii ''api.vectorengine.ai'',
          href = ascii ''https://api.vectorengine.ai/v1/chat/completions''\<rparr>),
      (ascii ''https://api.vectorengine.ai/v1beta/models/gemini-1.5-pro:generateContent'',
         \<lparr>hostname = ascii ''api.vectorengine.ai'',
          href = ascii ''https://api.vectorengine.ai/v1beta/models/gemini-1.5-pro:generateContent''\<rparr>),
      (ascii ''http://api.vectorengine.ai:8080/x'',
         \<lparr>hostname = ascii ''api.vectorengine.ai'', href = ascii ''http://api.vectorengine.ai:8080/x''\<rparr>),
      (ascii ''https://evil.example.com'',
         \<lparr>hostname = ascii ''evil.example.com'', href = ascii ''https://evil.example.com/''\<rparr>)]"

text \<open>\<open>dq s\<close> is \<open>s\<close> between double quotes. The bodies are
  \<^verbatim>\<open>{"choices":[{"message":{"content":"hello"}}]}\<close>,
  \<^verbatim>\<open>{"candidates":[{"content":{"parts":[{"text":"a"},{"text":"b"}]}}]}\<close>,
  \<^verbatim>\<open>{"error":{"message":"model not found"}}\<close> and
  \<^verbatim>\<open>{"error":{"message":{"toString":1}}}\<close>.\<close>

definition dq :: "ustring \<Rightarrow> ustring" where
  "dq s = 34 # s @ [34]"

definition helloBody :: ustring where
  "helloBody = ascii ''{'' @ dq (ascii ''choices'') @ ascii '':[{'' @ dq (ascii ''message'')
     @ ascii '':{'' @ dq (ascii ''content'') @ ascii '':'' @ dq (ascii ''hello'') @ ascii ''}}]}''"

definition abBody :: ustring where
  "abBody = ascii ''{'' @ dq (ascii ''candidates'') @ ascii '':[{'' @ dq (ascii ''content'')
     @ ascii '':{'' @ dq (ascii ''parts'') @ ascii '':[{'' @ dq (ascii ''text'') @ ascii '':''
     @ dq (ascii ''a'') @ ascii ''},{'' @ dq (ascii ''text'') @ ascii '':'' @ dq (ascii ''b'')
     @ ascii ''}]}}]}''"

definition notFoundBody :: ustring where
  "notFoundBody = ascii ''{'' @ dq (ascii ''error'') @ ascii '':{'' @ dq (ascii ''message'')
     @ ascii '':'' @ dq (ascii ''model not found'') @ ascii ''}}''"

definition oddBody :: ustring where
  "oddBody = ascii ''{'' @ dq (ascii ''error'') @ ascii '':{'' @ dq (ascii ''message'')
     @ ascii '':{'' @ dq (ascii ''toString'') @ ascii '':1}}}''"

definition testBodies :: "(ustring \<times> nat json) list" where
  "testBodies =
     [(helloBody,
         JObj [(ascii ''choices'',
           JArr [JObj [(ascii ''message'', JObj [(ascii ''content'', JStr (ascii ''hello''))])]])]),
      (abBody,
         JObj [(ascii ''candidates'',
           JArr [JObj [(ascii ''content'',
             JObj [(ascii ''parts'',
               JArr [JObj [(ascii ''text'', JStr (ascii ''a''))],
                     JObj [(ascii ''text'', JStr (ascii ''b''))]])])]])]),
      (notFoundBody,
         JObj [(ascii ''error'', JObj [(ascii ''message'', JStr (ascii ''model not found''))])]),
      (oddBody,
         JObj [(ascii ''error'',
           JObj [(ascii ''message'', JObj [(ascii ''toString'', JNum 1)])])])]"

definition testEnv :: "(fetch_outcome list, nat) env" where
  "testEnv = tableEnv testUrls testBodies"

definition jsonResponse :: "nat \<Rightarrow> ustring \<Rightarrow> fetch_outcome" where
  "jsonResponse st raw =
     Resp \<lparr>resStatus = st, resContentType = Some (ascii ''application/json''), resText = raw\<rparr>"

definition chatRequest :: "ustring \<Rightarrow> ustring \<Rightarrow> ustring \<Rightarrow> ustring \<Rightarrow> fetch_request" where
  "chatRequest tok m si up =
     \<lparr>fetchUrl = ascii ''https://api.vectorengine.ai/v1/chat/completions'',
      fetchHeaders = bearerHeaders tok, fetchBody = ChatCompletion m si up\<rparr>"

definition generateRequest :: "ustring \<Rightarrow> ustring \<Rightarrow> ustring \<Rightarrow> fetch_request" where
  "generateRequest tok si up =
     \<lparr>fetchUrl = ascii ''https://api.vectorengine.ai/v1beta/models/gemini-1.5-pro:generateContent'',
      fetchHeaders = bearerHeaders tok, fetchBody = GenerateContent si up False\<rparr>"

text \<open>A POST request whose body has the three required fields as strings, and
  \<open>proxyEndpoint\<close> when given.\<close>

definition postRequest ::
  "ustring option \<Rightarrow> ustring \<Rightarrow> ustring \<Rightarrow> ustring \<Rightarrow> ustring option \<Rightarrow> nat request" where
  "postRequest auth mdl si up proxy =
     \<lparr>httpMethod = ascii ''POST'', authorization = auth,
      reqBody = Some (JObj ([(ascii ''model'', JStr mdl), (ascii ''systemInstruction'', JStr si),
                             (ascii ''userPrompt'', JStr up)] @
                            (case proxy of None \<Rightarrow> []
                             | Some p \<Rightarrow> [(ascii ''proxyEndpoint'', JStr p)])))\<rparr>"



section \<open>Strings and model normalization: proofs\<close>

lemma trim_fixed:
  assumes "s \<noteq> []" "\<not> isWhiteSpace (hd s)" "\<not> isWhiteSpace (last s)"
  shows "trim s = s"
proof -
  from assms have a: "dropWhile isWhiteSpace s = s" by (cases s) auto
  from assms have "rev s \<noteq> []" "\<not> isWhiteSpace (hd (rev s))" by (auto simp: hd_rev)
  then have "dropWhile isWhiteSpace (rev s) = rev s" by (cases "rev s") auto
  with a show ?thesis by (simp add: trim_def)
qed

lemma dropWhile_hd: "dropWhile P xs \<noteq> [] \<Longrightarrow> \<not> P (hd (dropWhile P xs))"
  by (metis hd_dropWhile)

lemma trim_ends:
  assumes "trim s \<noteq> []"
  shows "\<not> isWhiteSpace (hd (trim s))" "\<not> isWhiteSpace (last (trim s))"
proof -
  let ?a = "dropWhile isWhiteSpace s"
  let ?b = "dropWhile isWhiteSpace (rev ?a)"
  from assms have b: "?b \<noteq> []" by (simp add: trim_def)
  then have hb: "\<not> isWhiteSpace (hd ?b)" by (rule dropWhile_hd)
  then show "\<not> isWhiteSpace (last (trim s))" using b by (simp add: trim_def last_rev)
  have a: "?a \<noteq> []" using b by (cases "?a = []") simp_all
  then have ha: "\<not> isWhiteSpace (hd ?a)" by (rule dropWhile_hd)
  have "last ?b = last (rev ?a)" using b by (metis last_appendR takeWhile_dropWhile_id)
  then have "hd (rev ?b) = hd ?a" using a b by (simp add: hd_rev last_rev)
  then show "\<not> isWhiteSpace (hd (trim s))" using ha by (simp add: trim_def)
qed

lemma trim_Nil [simp]: "trim [] = []" by (simp add: trim_def)

lemma trim_idem: "trim (trim s) = trim s"
proof (cases "trim s = []")
  case True then show ?thesis by simp
next
  case False then show ?thesis using trim_ends[OF False] by (intro trim_fixed)
qed

lemma digitGroups_last: "digitGroups b m \<Longrightarrow> m \<noteq> [] \<Longrightarrow> isDigit (last m)"
  by (induction b m rule: digitGroups.induct) (auto split: if_splits)

lemma dotted_hd: "matchDottedNumeric m \<Longrightarrow> m \<noteq> [] \<and> isDigit (hd m) \<and> isDigit (last m)"
  using digitGroups_last[of False m]
  by (cases m) (auto simp: matchDottedNumeric_def split: if_splits)

lemma digit_not_ws: "isDigit c \<Longrightarrow> \<not> isWhiteSpace c"
  by (auto simp: isDigit_def isWhiteSpace_def)

lemma startsWith_hd: "startsWith s p \<Longrightarrow> p \<noteq> [] \<Longrightarrow> s \<noteq> [] \<and> hd s = hd p"
  by (cases p; cases s) (auto simp: startsWith_def)

lemma concat_dot_groups_Nil:
  "concat (map ((#) (46::nat)) gs) = [] \<longleftrightarrow> gs = []"
  by (cases gs) auto

lemma digitGroups_iff:
  "digitGroups seen s \<longleftrightarrow>
     (\<exists>g gs. s = g @ concat (map ((#) 46) gs) \<and> list_all isDigit g \<and> (seen \<or> g \<noteq> []) \<and>
        list_all (\<lambda>h. h \<noteq> [] \<and> list_all isDigit h) gs)"
proof (induction s arbitrary: seen)
  case Nil
  show ?case by (auto simp: concat_dot_groups_Nil)
next
  case (Cons c cs)
  have nd: "\<not> isDigit 46" by (simp add: isDigit_def)
  show ?case
  proof (cases "isDigit c")
    case True
    have "(\<exists>g gs. c # cs = g @ concat (map ((#) 46) gs) \<and> list_all isDigit g \<and>
             (seen \<or> g \<noteq> []) \<and> list_all (\<lambda>h. h \<noteq> [] \<and> list_all isDigit h) gs) \<longleftrightarrow>
          (\<exists>g gs. cs = g @ concat (map ((#) 46) gs) \<and> list_all isDigit g \<and>
             list_all (\<lambda>h. h \<noteq> [] \<and> list_all isDigit h) gs)" (is "?L \<longleftrightarrow> ?R")
    proof
      assume ?L
      then obtain g gs where g: "c # cs = g @ concat (map ((#) 46) gs)" "list_all isDigit g"
        "list_all (\<lambda>h. h \<noteq> [] \<and> list_all isDigit h) gs" by blast
      show ?R
      proof (cases g)
        case Nil
        with g(1) True nd show ?thesis by (cases gs) auto
      next
        case (Cons a g')
        with g show ?thesis by auto
      qed
    next
      assume ?R
      then obtain g gs where g: "cs = g @ concat (map ((#) 46) gs)" "list_all isDigit g"
        "list_all (\<lambda>h. h \<noteq> [] \<and> list_all isDigit h) gs" by blast
      show ?L
        using g True by (intro exI[of _ "c # g"] exI[of _ gs]) simp
    qed
    with True Cons.IH[of True] show ?thesis by simp
  next
    case False
    have "(\<exists>g gs. c # cs = g @ concat (map ((#) 46) gs) \<and> list_all isDigit g \<and>
             (seen \<or> g \<noteq> []) \<and> list_all (\<lambda>h. h \<noteq> [] \<and> list_all isDigit h) gs) \<longleftrightarrow>
          c = 46 \<and> seen \<and>
          (\<exists>g gs. cs = g @ concat (map ((#) 46) gs) \<and> list_all isDigit g \<and> g \<noteq> [] \<and>
             list_all (\<lambda>h. h \<noteq> [] \<and> list_all isDigit h) gs)" (is "?L \<longleftrightarrow> ?R")
    proof
      assume ?L
      then obtain g gs where g: "c # cs = g @ concat (map ((#) 46) gs)" "list_all isDigit g"
        "seen \<or> g \<noteq> []" "list_all (\<lambda>h. h \<noteq> [] \<and> list_all isDigit h) gs" by blast
      have gn: "g = []" using g(1,2) False by (cases g) auto
      with g(1) obtain h gs' where gs: "gs = h # gs'" by (cases gs) auto
      with g gn show ?R by auto
    next
      assume ?R
      then obtain h gs where h: "c = 46" "seen" "cs = h @ concat (map ((#) 46) gs)"
        "list_all isDigit h" "h \<noteq> []" "list_all (\<lambda>h. h \<noteq> [] \<and> list_all isDigit h) gs"
        by blast
      show ?L
        using h by (intro exI[of _ "[]"] exI[of _ "h # gs"]) simp
    qed
    with False Cons.IH[of False] show ?thesis by auto
  qed
qed

lemma matchDottedNumeric_iff:
  "matchDottedNumeric m \<longleftrightarrow>
     (\<exists>g gs. m = g @ concat (map ((#) 46) gs) \<and> g \<noteq> [] \<and> list_all isDigit g \<and>
        list_all (\<lambda>h. h \<noteq> [] \<and> list_all isDigit h) gs)"
  unfolding matchDottedNumeric_def digitGroups_iff by auto

lemma normalizeModel_dotted:
  assumes "matchDottedNumeric m"
  shows "normalizeModel m = ascii ''gpt-'' @ m"
proof -
  from dotted_hd[OF assms] have ne: "m \<noteq> []" and d: "isDigit (hd m)" "isDigit (last m)" by auto
  then have t: "trim m = m" by (intro trim_fixed) (auto dest: digit_not_ws)
  have "\<not> startsWith m (ascii ''gpt-'')" "\<not> startsWith m (ascii ''o1'')" "\<not> startsWith m (ascii ''gpt'')"
    using d(1) by (auto dest!: startsWith_hd simp: ascii_def isDigit_def)
  with t ne assms show ?thesis by (simp add: normalizeModel_def)
qed

text \<open>
  Claim C6. The test of line 16 accepts exactly the strings made of one or more digits
  followed by any number of groups of a dot and one or more digits, and every input that
  it accepts is normalized to \<open>gpt-\<close> followed by the input itself.
\<close>

theorem normalizeModel_dotted_numeric:
  "(matchDottedNumeric m \<longleftrightarrow>
      (\<exists>g gs. m = g @ concat (map ((#) 46) gs) \<and> g \<noteq> [] \<and> list_all isDigit g \<and>
         list_all (\<lambda>h. h \<noteq> [] \<and> list_all isDigit h) gs)) \<and>
   (matchDottedNumeric m \<longrightarrow> normalizeModel m = ascii ''gpt-'' @ m)"
  using matchDottedNumeric_iff[of m] normalizeModel_dotted[of m] by blast

theorem normalizeModel_dotted_numeric_witness:
  "matchDottedNumeric (ascii ''4.1'') \<and> matchDottedNumeric (ascii ''4.1.2'') \<and>
   normalizeModel (ascii ''4.1'') = ascii ''gpt-4.1'' \<and>
   normalizeModel (ascii ''4.1.2'') = ascii ''gpt-4.1.2''"
proof -
  have a: "matchDottedNumeric (ascii ''4.1'')" by (simp add: matchDottedNumeric_def ascii_def isDigit_def)
  have b: "matchDottedNumeric (ascii ''4.1.2'')" by (simp add: matchDottedNumeric_def ascii_def isDigit_def)
  have c: "normalizeModel (ascii ''4.1'') = ascii ''gpt-'' @ ascii ''4.1''"
    using normalizeModel_dotted_numeric[of "ascii ''4.1''"] a by blast
  have d: "normalizeModel (ascii ''4.1.2'') = ascii ''gpt-'' @ ascii ''4.1.2''"
    using normalizeModel_dotted_numeric[of "ascii ''4.1.2''"] b by blast
  show ?thesis using a b c d by (simp add: ascii_def)
qed

lemma trim_prefix:
  assumes "p \<noteq> []" "\<forall>c\<in>set p. \<not> isWhiteSpace c"
  shows "trim (p @ t) = p @ rev (dropWhile isWhiteSpace (rev t))"
proof -
  from assms have a: "dropWhile isWhiteSpace (p @ t) = p @ t" by (cases p) auto
  from assms have "\<not> isWhiteSpace (hd (rev p))" "rev p \<noteq> []" by (auto simp: hd_rev)
  then have b: "dropWhile isWhiteSpace (rev p) = rev p" by (cases "rev p") auto
  show ?thesis unfolding trim_def a using b by (simp add: dropWhile_append)
qed

lemma rev_dropWhile_last:
  "x = [] \<or> \<not> P (last x) \<Longrightarrow> rev (dropWhile P (rev x)) = x"
  by (cases "rev x") (auto simp: last_rev)

lemma gpt_dash_no_ws: "\<forall>c\<in>set (ascii ''gpt-''). \<not> isWhiteSpace c"
  by (simp add: ascii_def isWhiteSpace_def)

lemma o1_no_ws: "\<forall>c\<in>set (ascii ''o1''). \<not> isWhiteSpace c"
  by (simp add: ascii_def isWhiteSpace_def)

lemma gpt_dash_ne: "ascii ''gpt-'' \<noteq> []" by (simp add: ascii_def)

lemma trim_gpt_dash:
  "x = [] \<or> \<not> isWhiteSpace (last x) \<Longrightarrow> trim (ascii ''gpt-'' @ x) = ascii ''gpt-'' @ x"
  by (simp add: trim_prefix[OF gpt_dash_ne gpt_dash_no_ws] rev_dropWhile_last)

lemma startsWith_append [simp]: "startsWith (p @ t) p"
  by (simp add: startsWith_def)

lemma startsWith_split: "startsWith s p \<Longrightarrow> s = p @ drop (length p) s"
  by (metis append_take_drop_id startsWith_def)

lemma normalizeModel_gpt_dash_fixed:
  "trim r = r \<Longrightarrow> startsWith r (ascii ''gpt-'') \<Longrightarrow> normalizeModel r = r"
  by (simp add: normalizeModel_def)

lemma normalizeModel_prefixed:
  assumes "x = [] \<or> \<not> isWhiteSpace (last x)"
  shows "normalizeModel (ascii ''gpt-'' @ x) = ascii ''gpt-'' @ x"
  by (rule normalizeModel_gpt_dash_fixed) (simp_all add: trim_gpt_dash[OF assms])

lemma normalizeModel_idem: "normalizeModel (normalizeModel s) = normalizeModel s"
proof (cases "trim s = []")
  case True
  then show ?thesis by (simp add: normalizeModel_def)
next
  case False
  define m where "m = trim s"
  have ne: "m \<noteq> []" and tm: "trim m = m" and lm: "\<not> isWhiteSpace (last m)"
    using False trim_ends[OF False] by (simp_all add: m_def trim_idem)
  have self: "normalizeModel m = normalizeModel s"
    by (simp add: normalizeModel_def m_def trim_idem)
  have ld: "drop 3 m = [] \<or> \<not> isWhiteSpace (last (drop 3 m))"
    using lm by (cases "drop 3 m = []") simp_all
  have len: "length (ascii ''gpt'') = 3" by (simp add: ascii_def)
  have "normalizeModel s = m \<or> normalizeModel s = ascii ''gpt-'' @ m \<or>
        normalizeModel s = ascii ''gpt-'' @ drop 3 m"
    unfolding normalizeModel_def m_def Let_def by (simp add: len)
  then consider (a) "normalizeModel s = m"
    | (b) "normalizeModel s = ascii ''gpt-'' @ m"
    | (c) "normalizeModel s = ascii ''gpt-'' @ drop 3 m"
    by blast
  then show ?thesis
  proof cases
    case a then show ?thesis using self by simp
  next
    case b then show ?thesis using normalizeModel_prefixed[of m] lm by simp
  next
    case c then show ?thesis using normalizeModel_prefixed[OF ld] by simp
  qed
qed

lemma normalizeModel_prefix_trim:
  assumes "startsWith s (ascii ''gpt-'') \<or> startsWith s (ascii ''o1'')"
  shows "normalizeModel s = trim s"
proof -
  from assms obtain p where p: "p = ascii ''gpt-'' \<or> p = ascii ''o1''" "startsWith s p" by auto
  then have s: "s = p @ drop (length p) s" by (auto dest: startsWith_split)
  from p(1) have pp: "p \<noteq> []" "\<forall>c\<in>set p. \<not> isWhiteSpace c"
    using gpt_dash_no_ws o1_no_ws by (auto simp: ascii_def)
  have "trim s = p @ rev (dropWhile isWhiteSpace (rev (drop (length p) s)))"
    using trim_prefix[OF pp, of "drop (length p) s"] s by simp
  then have "startsWith (trim s) p" "trim s \<noteq> []" using pp by simp_all
  then show ?thesis using p(1) by (auto simp: normalizeModel_def)
qed

text \<open>
  Claim C7, as amended. Normalization is idempotent. A string that starts with \<open>gpt-\<close>
  or \<open>o1\<close> is returned trimmed; it is returned unchanged when it has no whitespace at
  its end (when it is its own trim).
\<close>

theorem normalizeModel_idempotent:
  "normalizeModel (normalizeModel s) = normalizeModel s \<and>
   (startsWith s (ascii ''gpt-'') \<or> startsWith s (ascii ''o1'') \<longrightarrow> normalizeModel s = trim s) \<and>
   ((startsWith s (ascii ''gpt-'') \<or> startsWith s (ascii ''o1'')) \<and> trim s = s \<longrightarrow>
      normalizeModel s = s)"
  using normalizeModel_idem[of s] normalizeModel_prefix_trim[of s] by auto

theorem normalizeModel_idempotent_witness:
  "startsWith (ascii ''o1-mini'') (ascii ''o1'') \<and> trim (ascii ''o1-mini'') = ascii ''o1-mini'' \<and>
   normalizeModel (ascii ''o1-mini'') = ascii ''o1-mini'' \<and>
   normalizeModel (normalizeModel (ascii '' gpt4o '')) = normalizeModel (ascii '' gpt4o '')"
proof -
  have a: "startsWith (ascii ''o1-mini'') (ascii ''o1'')" by (simp add: startsWith_def ascii_def)
  have b: "trim (ascii ''o1-mini'') = ascii ''o1-mini''"
    by (simp add: trim_def ascii_def isWhiteSpace_def)
  show ?thesis
    using a b normalizeModel_idempotent[of "ascii ''o1-mini''"]
      normalizeModel_idempotent[of "ascii '' gpt4o ''"] by simp
qed

text \<open>
  The string \<open>gpt-4\<close> followed by a space starts with \<open>gpt-\<close> and is not returned
  unchanged: the space is trimmed.
\<close>

theorem normalizeModel_unchanged_counterexample:
  "startsWith (ascii ''gpt-4 '') (ascii ''gpt-'') \<and>
   normalizeModel (ascii ''gpt-4 '') = ascii ''gpt-4'' \<and>
   normalizeModel (ascii ''gpt-4 '') \<noteq> ascii ''gpt-4 ''"
  by (simp add: normalizeModel_def trim_def startsWith_def ascii_def isWhiteSpace_def)

section \<open>The fallback chain: proofs\<close>

lemma filter_removeAll_absorb: "\<not> P x \<Longrightarrow> filter P (removeAll x ys) = filter P ys"
  by (induction ys) auto

lemma foldl_set_insert:
  "foldl (\<lambda>acc x. if x \<in> set acc then acc else acc @ [x]) acc xs =
     acc @ filter (\<lambda>x. x \<notin> set acc) (firstOccurrences xs)"
proof (induction xs arbitrary: acc)
  case Nil
  then show ?case by simp
next
  case (Cons x xs)
  show ?case
  proof (cases "x \<in> set acc")
    case True
    then show ?thesis by (simp add: Cons.IH filter_removeAll_absorb)
  next
    case False
    have "filter (\<lambda>y. y \<notin> set (acc @ [x])) (firstOccurrences xs) =
          filter (\<lambda>y. y \<notin> set acc) (removeAll x (firstOccurrences xs))"
      unfolding removeAll_filter_not_eq filter_filter by (rule filter_cong) auto
    with False show ?thesis by (simp add: Cons.IH)
  qed
qed

lemma arrayFromSet_firstOccurrences: "arrayFromSet xs = firstOccurrences xs"
  by (simp add: arrayFromSet_def foldl_set_insert)

lemma set_firstOccurrences [simp]: "set (firstOccurrences xs) = set xs"
  by (induction xs) auto

lemma distinct_firstOccurrences [simp]: "distinct (firstOccurrences xs)"
  by (induction xs) (auto simp: distinct_removeAll)

lemma subseq_removeAll: "subseq (removeAll x ys) ys"
  by (simp add: removeAll_filter_not_eq)

lemma subseq_firstOccurrences: "subseq (firstOccurrences xs) xs"
proof (induction xs)
  case Nil then show ?case by simp
next
  case (Cons x xs)
  have "subseq (removeAll x (firstOccurrences xs)) (firstOccurrences xs)" by (rule subseq_removeAll)
  then have "subseq (removeAll x (firstOccurrences xs)) xs" using Cons.IH by (rule subseq_order.trans)
  then show ?case by simp
qed

lemma familyCandidates_table: "familyCandidates m = firstMatch familyTable m"
  by (simp add: familyCandidates_def familyTable_def)

lemma familyCandidates_nonempty: "x \<in> set (familyCandidates m) \<Longrightarrow> x \<noteq> []"
  by (auto simp: familyCandidates_def ascii_def split: if_splits)

lemma familyCandidates_Nil: "familyCandidates [] = []"
  by (simp add: familyCandidates_def startsWith_def ascii_def)

lemma filter_candidates:
  "filter (\<lambda>x. x \<noteq> [] \<and> x \<noteq> m) (familyCandidates m) = removeAll m (familyCandidates m)"
  unfolding removeAll_filter_not_eq
  by (rule filter_cong) (auto dest: familyCandidates_nonempty)

lemma getModelFallbacks_eq:
  "getModelFallbacks s = firstOccurrences (removeAll (trim s) (firstMatch familyTable (trim s)))"
proof (cases "trim s = []")
  case True
  then show ?thesis
    using familyCandidates_Nil by (simp add: getModelFallbacks_def familyCandidates_table[symmetric])
next
  case False
  then show ?thesis
    by (simp add: getModelFallbacks_def Let_def arrayFromSet_firstOccurrences filter_candidates)
      (simp add: familyCandidates_table)
qed

lemma firstMatch_none: "\<forall>row\<in>set rows. \<not> fst row m \<Longrightarrow> firstMatch rows m = []"
  by (induction rows m rule: firstMatch.induct) auto

text \<open>
  Claim C4. For every model string, the fallback chain does not contain the trimmed
  model, has no duplicates, is the candidate list of the first matching row of the
  family table with the model removed and every element kept at its first occurrence
  (so it is a subsequence of the row's candidates), and is empty when no row matches.
\<close>

theorem getModelFallbacks_chain:
  "trim s \<notin> set (getModelFallbacks s) \<and>
   distinct (getModelFallbacks s) \<and>
   getModelFallbacks s = firstOccurrences (removeAll (trim s) (firstMatch familyTable (trim s))) \<and>
   subseq (getModelFallbacks s) (firstMatch familyTable (trim s)) \<and>
   (list_all (\<lambda>row. \<not> fst row (trim s)) familyTable \<longrightarrow> getModelFallbacks s = [])"
proof -
  let ?c = "firstMatch familyTable (trim s)"
  have e: "getModelFallbacks s = firstOccurrences (removeAll (trim s) ?c)"
    by (rule getModelFallbacks_eq)
  have "subseq (firstOccurrences (removeAll (trim s) ?c)) (removeAll (trim s) ?c)"
    by (rule subseq_firstOccurrences)
  then have "subseq (getModelFallbacks s) ?c"
    unfolding e using subseq_removeAll by (rule subseq_order.trans)
  moreover have "list_all (\<lambda>row. \<not> fst row (trim s)) familyTable \<longrightarrow> getModelFallbacks s = []"
    unfolding e by (auto simp: firstMatch_none list_all_iff)
  ultimately show ?thesis using e by simp
qed

theorem getModelFallbacks_chain_witness:
  "getModelFallbacks (ascii ''gpt-4o'') = [ascii ''gpt-4o-mini''] \<and>
   getModelFallbacks (ascii '' gpt-4.1-mini '') = [ascii ''gpt-4o-mini'', ascii ''gpt-4o''] \<and>
   list_all (\<lambda>row. \<not> fst row (trim (ascii ''claude-3''))) familyTable \<and>
   getModelFallbacks (ascii ''claude-3'') = []"
proof -
  have t: "trim (ascii ''claude-3'') = ascii ''claude-3''"
    by (simp add: trim_def ascii_def isWhiteSpace_def)
  have n: "list_all (\<lambda>row. \<not> fst row (trim (ascii ''claude-3''))) familyTable"
    unfolding t by (simp add: familyTable_def startsWith_def ascii_def)
  have a: "getModelFallbacks (ascii ''gpt-4o'') = [ascii ''gpt-4o-mini'']"
    by (simp add: getModelFallbacks_def arrayFromSet_def familyCandidates_def trim_def
        startsWith_def ascii_def isWhiteSpace_def)
  have b: "getModelFallbacks (ascii '' gpt-4.1-mini '') = [ascii ''gpt-4o-mini'', ascii ''gpt-4o'']"
    by (simp add: getModelFallbacks_def arrayFromSet_def familyCandidates_def trim_def
        startsWith_def ascii_def isWhiteSpace_def)
  have c: "getModelFallbacks (ascii ''claude-3'') = []"
    using getModelFallbacks_chain[of "ascii ''claude-3''"] n by blast
  show ?thesis using n a b c by blast
qed

section \<open>The guards of the handler, and the fallback loop\<close>


lemma respond_no_token:
  "fModel f \<noteq> [] \<Longrightarrow> fSystem f \<noteq> [] \<Longrightarrow> fPrompt f \<noteq> [] \<Longrightarrow> tok = [] \<Longrightarrow>
   respond env tok f w = (missingToken, [])"
  by (simp add: respond_def missingToken_def)

lemma respond_unfold:
  "respond env tok f w =
     (if fModel f = [] \<or> fSystem f = [] \<or> fPrompt f = [] then (missingFields, [])
      else if tok = [] then (missingToken, [])
      else (case getUpstreamBase env (endpointOf f) of
              Inl msg \<Rightarrow> (thrownReply msg, [])
            | Inr ep \<Rightarrow>
                (case (if isOpenAI (fModel f)
                       then openaiBranch env ep tok (fModel f) (fSystem f) (fPrompt f) w
                       else geminiBranch env ep tok (fModel f) (fSystem f) (fPrompt f)
                              (fThinking f) w) of
                   (Inl msg, tr) \<Rightarrow> (thrownReply msg, tr)
                 | (Inr rp, tr) \<Rightarrow> (rp, tr))))"
  unfolding thrownReply_def
  by (simp add: respond_def missingFields_def missingToken_def tryBlock_def endpointOf_def
      split: sum.splits)

lemma tryModels_Cons:
  "tryModels env mk (m # ms) st w =
     (case fetch env (mk m) w of
        (Threw e, w') \<Rightarrow> (Raised e, [(mk m, Threw e)])
      | (Resp r, w') \<Rightarrow>
          if resOk r then (Returned (chatReply env m r), [(mk m, Resp r)])
          else (case notFoundOf env r of
                  None \<Rightarrow> (Raised (typeErrorMessage env), [(mk m, Resp r)])
                | Some False \<Rightarrow> (Fell (lastOf env r), [(mk m, Resp r)])
                | Some True \<Rightarrow>
                    (case tryModels env mk ms (lastOf env r) w' of
                       (ex, tr) \<Rightarrow> (ex, (mk m, Resp r) # tr))))"
  by (simp add: Let_def lastOf_def notFoundOf_def chatReply_def responseJson_def
      split: prod.splits fetch_outcome.splits option.splits bool.splits)

declare tryModels.simps(2) [simp del]

lemma tryModels_run:
  "ms \<noteq> [] \<Longrightarrow> tryModels env mk ms st w = (ex, tr) \<Longrightarrow>
   \<exists>pre out. tr = pre @ [(mk (ms ! length pre), out)] \<and> length tr \<le> length ms \<and>
     map fst tr = map mk (take (length tr) ms) \<and> list_all (goesOn env) pre \<and>
     leftBy env (ms ! length pre) (length tr = length ms) out ex"
proof (induction ms arbitrary: st w ex tr)
  case Nil
  then show ?case by simp
next
  case (Cons m ms)
  obtain out w' where f: "fetch env (mk m) w = (out, w')" by (cases "fetch env (mk m) w")
  note run = Cons.prems(2)[unfolded tryModels_Cons f]
  show ?case
  proof (cases out)
    case (Threw e)
    with run have "tr = [(mk m, Threw e)]" "ex = Raised e" by auto
    then show ?thesis
      by (intro exI[of _ "[]"] exI[of _ "Threw e"]) (simp add: leftBy_def)
  next
    case (Resp r)
    note r = Resp
    show ?thesis
    proof (cases "resOk r")
      case True
      with r run have "tr = [(mk m, Resp r)]" "ex = Returned (chatReply env m r)" by auto
      then show ?thesis using True
        by (intro exI[of _ "[]"] exI[of _ "Resp r"]) (simp add: leftBy_def)
    next
      case False
      note notok = False
      show ?thesis
      proof (cases "notFoundOf env r")
        case None
        with r notok run
        have "tr = [(mk m, Resp r)]" "ex = Raised (typeErrorMessage env)" by auto
        then show ?thesis using notok None
          by (intro exI[of _ "[]"] exI[of _ "Resp r"]) (simp add: leftBy_def)
      next
        case (Some b)
        show ?thesis
        proof (cases b)
          case False
          with r notok run Some
          have "tr = [(mk m, Resp r)]" "ex = Fell (lastOf env r)" by auto
          then show ?thesis using notok Some False
            by (intro exI[of _ "[]"] exI[of _ "Resp r"]) (simp add: leftBy_def)
        next
          case True
          obtain ex' tr' where rec: "tryModels env mk ms (lastOf env r) w' = (ex', tr')"
            by (cases "tryModels env mk ms (lastOf env r) w'")
          with r notok run Some True
          have tr: "tr = (mk m, Resp r) # tr'" and ex: "ex = ex'" by auto
          have go: "goesOn env (mk m, Resp r)" using notok Some True by (simp add: goesOn_def)
          show ?thesis
          proof (cases "ms = []")
            case True
            with rec have "tr' = []" "ex' = Fell (lastOf env r)" by auto
            with tr ex True show ?thesis using notok Some \<open>b\<close>
              by (intro exI[of _ "[]"] exI[of _ "Resp r"]) (simp add: leftBy_def)
          next
            case False
            from Cons.IH[OF False rec] obtain pre out' where
              p: "tr' = pre @ [(mk (ms ! length pre), out')]" "length tr' \<le> length ms"
                 "map fst tr' = map mk (take (length tr') ms)" "list_all (goesOn env) pre"
                 "leftBy env (ms ! length pre) (length tr' = length ms) out' ex'"
              by blast
            show ?thesis
              using p go tr ex
              by (intro exI[of _ "(mk m, Resp r) # pre"] exI[of _ out']) simp
          qed
        qed
      qed
    qed
  qed
qed


lemma trim_nonempty: "trim s \<noteq> [] \<Longrightarrow> s \<noteq> []"
  by (auto simp: trim_def)

section \<open>The endpoint allow-list\<close>






lemma respond_host_rejected:
  assumes "fModel f \<noteq> []" "fSystem f \<noteq> []" "fPrompt f \<noteq> []" "tok \<noteq> []"
    "parseURL env (endpointOf f) = Inr u" "hostname u \<notin> allowedHosts"
  shows "respond env tok f w = (thrownReply (ascii ''proxyEndpoint host not allowed''), [])"
  using assms by (simp add: respond_unfold getUpstreamBase_def)

lemma respond_host_no_call:
  assumes "parseURL env (endpointOf f) = Inr u" "hostname u \<notin> allowedHosts"
  shows "snd (respond env tok f w) = []"
  using assms by (simp add: respond_unfold getUpstreamBase_def)

lemma strip_decompose:
  "s = stripTrailingSlashes s @ replicate (length s - length (stripTrailingSlashes s)) 47"
proof -
  let ?t = "takeWhile (\<lambda>c. c = 47) (rev s)"
  have "rev s = ?t @ dropWhile (\<lambda>c. c = 47) (rev s)" by simp
  then have "s = rev (dropWhile (\<lambda>c. c = 47) (rev s)) @ rev ?t"
    by (metis rev_append rev_rev_ident)
  moreover have "?t = replicate (length ?t) 47"
    by (rule replicate_length_same[symmetric]) (auto dest: set_takeWhileD)
  then have "rev ?t = replicate (length ?t) 47" by (metis rev_replicate)
  moreover have "length ?t = length s - length (stripTrailingSlashes s)"
  proof -
    have "length (rev s) = length ?t + length (dropWhile (\<lambda>c. c = 47) (rev s))"
      by (metis length_append takeWhile_dropWhile_id)
    then show ?thesis by (simp add: stripTrailingSlashes_def)
  qed
  ultimately show ?thesis by (simp add: stripTrailingSlashes_def)
qed

lemma strip_no_slash: "\<not> endsWith (stripTrailingSlashes s) (ascii ''/'')"
proof -
  define d where "d = dropWhile (\<lambda>c. c = 47) (rev s)"
  have "d = [] \<or> hd d \<noteq> 47"
    unfolding d_def using hd_dropWhile[of "\<lambda>c. c = 47" "rev s"] by blast
  then have "take (Suc 0) d \<noteq> [47]" by (cases d) auto
  then show ?thesis
    by (simp add: endsWith_def startsWith_def stripTrailingSlashes_def ascii_def d_def)
qed

text \<open>
  Claim C10. Whenever the endpoint parses as a URL whose hostname is on the allow-list,
  whatever its scheme, port and path, \<open>getUpstreamBase\<close> succeeds and returns the
  endpoint string without its trailing slashes: the endpoint is the result followed by
  slashes only, and the result does not end with a slash.
\<close>

theorem allowed_host_accepted:
  assumes "parseURL env endpoint = Inr u" "hostname u \<in> allowedHosts"
  shows "getUpstreamBase env endpoint = Inr (stripTrailingSlashes endpoint) \<and>
         (\<exists>n. endpoint = stripTrailingSlashes endpoint @ replicate n 47) \<and>
         \<not> endsWith (stripTrailingSlashes endpoint) (ascii ''/'')"
  using assms strip_decompose[of endpoint] strip_no_slash[of endpoint]
  by (auto simp: getUpstreamBase_def)

section \<open>The OpenAI-compatible branch\<close>

lemma leftBy_repliedBy:
  "leftBy env m exh out ex \<Longrightarrow>
   repliedBy env mdl m exh out
     (case ex of Returned rp \<Rightarrow> rp | Raised msg \<Rightarrow> thrownReply msg
      | Fell st \<Rightarrow> failureReply env mdl (lastStatus st) (lastContentType st) (lastRaw st) (lastJson st))"
  by (auto simp: leftBy_def repliedBy_def failureOf_def lastOf_def
      split: fetch_outcome.splits option.splits bool.splits if_splits)

lemma openaiBranch_reply:
  "parseURL env (chatCompletionsUrl ep) = Inr u \<Longrightarrow>
   tryModels env
      (\<lambda>m. \<lparr>fetchUrl = href u, fetchHeaders = bearerHeaders tok, fetchBody = ChatCompletion m si up\<rparr>)
      (mdl # getModelFallbacks mdl)
      \<lparr>lastStatus = 500, lastRaw = [], lastContentType = [], lastJson = JNull\<rparr> w = (ex, tr) \<Longrightarrow>
   openaiBranch env ep tok mdl si up w =
     (case ex of Returned rp \<Rightarrow> Inr rp | Raised msg \<Rightarrow> Inl msg
      | Fell st \<Rightarrow> Inr (failureReply env mdl (lastStatus st) (lastContentType st) (lastRaw st)
                        (lastJson st)), tr)"
  by (simp add: openaiBranch_def split: loop_exit.splits)

lemma sentModel_chat:
  assumes "map fst tr = map (\<lambda>m. \<lparr>fetchUrl = a, fetchHeaders = h, fetchBody = ChatCompletion m si up\<rparr>) xs"
  shows "map sentModel tr = map Some xs"
proof -
  have "sentModel = (\<lambda>rq. case fetchBody rq of ChatCompletion m si up \<Rightarrow> Some m
                          | GenerateContent si up th \<Rightarrow> None) \<circ> fst"
  proof (rule ext)
    fix x :: exchange
    show "sentModel x = ((\<lambda>rq. case fetchBody rq of ChatCompletion m si up \<Rightarrow> Some m
                          | GenerateContent si up th \<Rightarrow> None) \<circ> fst) x"
      by (cases x) simp
  qed
  then have "map sentModel tr =
      map (\<lambda>rq. case fetchBody rq of ChatCompletion m si up \<Rightarrow> Some m
                 | GenerateContent si up th \<Rightarrow> None) (map fst tr)"
    by simp
  also have "\<dots> = map Some xs" unfolding assms by (simp add: comp_def)
  finally show ?thesis .
qed

lemma openaiBranch_run:
  assumes "openaiBranch env ep tok mdl si up w = (res, tr)" "tr \<noteq> []"
  shows "\<exists>pre rq out. tr = pre @ [(rq, out)] \<and>
           length tr \<le> length (mdl # getModelFallbacks mdl) \<and>
           map sentModel tr = map Some (take (length tr) (mdl # getModelFallbacks mdl)) \<and>
           list_all (goesOn env) pre \<and>
           repliedBy env mdl ((mdl # getModelFallbacks mdl) ! length pre)
             (length tr = length (mdl # getModelFallbacks mdl)) out
             (case res of Inl msg \<Rightarrow> thrownReply msg | Inr rp \<Rightarrow> rp)"
proof (cases "parseURL env (chatCompletionsUrl ep)")
  case (Inl a)
  with assms show ?thesis by (simp add: openaiBranch_def)
next
  case (Inr u)
  let ?mk = "\<lambda>m. \<lparr>fetchUrl = href u, fetchHeaders = bearerHeaders tok,
                    fetchBody = ChatCompletion m si up\<rparr>"
  let ?cands = "mdl # getModelFallbacks mdl"
  let ?run = "tryModels env ?mk ?cands
      \<lparr>lastStatus = 500, lastRaw = [], lastContentType = [], lastJson = JNull\<rparr> w"
  obtain ex tr' where run: "?run = (ex, tr')" by (cases ?run)
  from openaiBranch_reply[OF Inr run] assms(1)
  have res: "res = (case ex of Returned rp \<Rightarrow> Inr rp | Raised msg \<Rightarrow> Inl msg
      | Fell st \<Rightarrow> Inr (failureReply env mdl (lastStatus st) (lastContentType st) (lastRaw st)
                        (lastJson st)))" and tr: "tr' = tr" by simp_all
  have ne: "?cands \<noteq> []" by simp
  from tryModels_run[OF ne run] obtain pre out where
    p: "tr' = pre @ [(?mk (?cands ! length pre), out)]" "length tr' \<le> length ?cands"
       "map fst tr' = map ?mk (take (length tr') ?cands)" "list_all (goesOn env) pre"
       "leftBy env (?cands ! length pre) (length tr' = length ?cands) out ex"
    by blast
  have r: "(case res of Inl msg \<Rightarrow> thrownReply msg | Inr rp \<Rightarrow> rp) =
        (case ex of Returned rp \<Rightarrow> rp | Raised msg \<Rightarrow> thrownReply msg
         | Fell st \<Rightarrow> failureReply env mdl (lastStatus st) (lastContentType st) (lastRaw st) (lastJson st))"
    unfolding res by (simp split: loop_exit.splits)
  show ?thesis
    unfolding r using p(1,2,4) sentModel_chat[OF p(3)] leftBy_repliedBy[OF p(5), of mdl]
    unfolding tr by blast
qed

lemma respond_branch:
  assumes "respond env tok f w = (rp, tr)" "tr \<noteq> []"
  shows "\<exists>ep res. getUpstreamBase env (endpointOf f) = Inr ep \<and>
           tok \<noteq> [] \<and>
           fSystem f \<noteq> [] \<and> fPrompt f \<noteq> [] \<and>
           (if isOpenAI (fModel f)
            then openaiBranch env ep tok (fModel f)
                   (fSystem f) (fPrompt f) w
            else geminiBranch env ep tok (fModel f)
                   (fSystem f) (fPrompt f)
                   (fThinking f) w) = (res, tr) \<and>
           rp = (case res of Inl msg \<Rightarrow> thrownReply msg | Inr rp \<Rightarrow> rp)"
  using assms unfolding respond_unfold
  by (auto split: if_splits sum.splits prod.splits)

lemma respond_openai_run:
  assumes "respond env tok f w = (rp, tr)" "isOpenAI (fModel f)" "tr \<noteq> []"
  shows "\<exists>pre rq out. tr = pre @ [(rq, out)] \<and>
           length tr \<le> length (fModel f # getModelFallbacks (fModel f)) \<and>
           map sentModel tr =
             map Some (take (length tr) (fModel f # getModelFallbacks (fModel f))) \<and>
           list_all (goesOn env) pre \<and>
           repliedBy env (fModel f)
             ((fModel f # getModelFallbacks (fModel f)) ! length pre)
             (length tr = length (fModel f # getModelFallbacks (fModel f))) out rp"
proof -
  from respond_branch[OF assms(1,3)] assms(2) obtain ep res where
    b: "openaiBranch env ep tok (fModel f)
          (fSystem f) (fPrompt f) w = (res, tr)"
    and rp: "rp = (case res of Inl msg \<Rightarrow> thrownReply msg | Inr rp \<Rightarrow> rp)"
    by auto
  show ?thesis using openaiBranch_run[OF b assms(3)] unfolding rp .
qed

lemma isOpenAI_nonempty: "isOpenAI m \<Longrightarrow> m \<noteq> []"
  by (auto simp: isOpenAI_def startsWith_def ascii_def)

lemma tryModels_nonempty:
  "tryModels env mk (m # ms) st w = (ex, tr) \<Longrightarrow> tr \<noteq> []"
  unfolding tryModels_Cons
  by (auto split: prod.splits fetch_outcome.splits if_splits option.splits bool.splits)

lemma respond_openai_attempts:
  assumes "respond env tok f w = (rp, tr)" "isOpenAI (fModel f)"
    "fSystem f \<noteq> []" "fPrompt f \<noteq> []"
    "tok \<noteq> []" "getUpstreamBase env (endpointOf f) = Inr ep"
    "parseURL env (chatCompletionsUrl ep) = Inr u"
  shows "tr \<noteq> []"
proof -
  let ?mdl = "fModel f"
  let ?run = "tryModels env
      (\<lambda>m. \<lparr>fetchUrl = href u, fetchHeaders = bearerHeaders tok,
             fetchBody = ChatCompletion m (fSystem f) (fPrompt f)\<rparr>)
      (?mdl # getModelFallbacks ?mdl)
      \<lparr>lastStatus = 500, lastRaw = [], lastContentType = [], lastJson = JNull\<rparr> w"
  obtain ex tr' where run: "?run = (ex, tr')" by (cases ?run)
  have "tr' \<noteq> []" using run by (rule tryModels_nonempty)
  moreover have "snd (respond env tok f w) = tr'"
    using assms(2-6) isOpenAI_nonempty[OF assms(2)] openaiBranch_reply[OF assms(7) run]
    by (simp add: respond_unfold split: loop_exit.splits)
  ultimately show ?thesis using assms(1) by simp
qed

lemma respond_fallback:
  assumes "respond env tok f w = (rp, tr)" and "isOpenAI (fModel f)"
  shows "(fSystem f \<noteq> [] \<and> fPrompt f \<noteq> [] \<and>
          tok \<noteq> [] \<and> getUpstreamBase env (endpointOf f) = Inr ep \<and>
          parseURL env (chatCompletionsUrl ep) = Inr u \<longrightarrow> tr \<noteq> []) \<and>
         (tr \<noteq> [] \<longrightarrow>
          (\<exists>pre rq out.
             tr = pre @ [(rq, out)] \<and>
             length tr \<le> length (fModel f # getModelFallbacks (fModel f)) \<and>
             map sentModel tr =
               map Some (take (length tr) (fModel f # getModelFallbacks (fModel f))) \<and>
             list_all (\<lambda>x. case snd x of Threw e \<Rightarrow> False
                            | Resp r \<Rightarrow> \<not> resOk r \<and> notFoundOf env r = Some True) pre \<and>
             (case out of
                Threw e \<Rightarrow> rp = \<lparr>statusCode = 500, jsonBody = ErrorOnly e\<rparr>
              | Resp r \<Rightarrow>
                  if resOk r then
                    rp = \<lparr>statusCode = 200,
                          jsonBody = Generated (choiceText env (responseJson env r))
                            ((fModel f # getModelFallbacks (fModel f)) ! length pre)\<rparr>
                  else (case notFoundOf env r of
                          None \<Rightarrow> rp = \<lparr>statusCode = 500, jsonBody = ErrorOnly (typeErrorMessage env)\<rparr>
                        | Some False \<Rightarrow> rp = failureOf env (fModel f) r
                        | Some True \<Rightarrow>
                            length tr = length (fModel f # getModelFallbacks (fModel f)) \<and>
                            rp = failureOf env (fModel f) r))))"
proof (intro conjI impI)
  assume "fSystem f \<noteq> [] \<and> fPrompt f \<noteq> [] \<and>
          tok \<noteq> [] \<and> getUpstreamBase env (endpointOf f) = Inr ep \<and>
          parseURL env (chatCompletionsUrl ep) = Inr u"
  then show "tr \<noteq> []" using respond_openai_attempts[OF assms] by blast
next
  assume ne: "tr \<noteq> []"
  have g: "goesOn env = (\<lambda>x. case snd x of Threw e \<Rightarrow> False
                            | Resp r \<Rightarrow> \<not> resOk r \<and> notFoundOf env r = Some True)"
    by (rule ext) (simp add: goesOn_def)
  show "\<exists>pre rq out.
             tr = pre @ [(rq, out)] \<and>
             length tr \<le> length (fModel f # getModelFallbacks (fModel f)) \<and>
             map sentModel tr =
               map Some (take (length tr) (fModel f # getModelFallbacks (fModel f))) \<and>
             list_all (\<lambda>x. case snd x of Threw e \<Rightarrow> False
                            | Resp r \<Rightarrow> \<not> resOk r \<and> notFoundOf env r = Some True) pre \<and>
             (case out of
                Threw e \<Rightarrow> rp = \<lparr>statusCode = 500, jsonBody = ErrorOnly e\<rparr>
              | Resp r \<Rightarrow>
                  if resOk r then
                    rp = \<lparr>statusCode = 200,
                          jsonBody = Generated (choiceText env (responseJson env r))
                            ((fModel f # getModelFallbacks (fModel f)) ! length pre)\<rparr>
                  else (case notFoundOf env r of
                          None \<Rightarrow> rp = \<lparr>statusCode = 500, jsonBody = ErrorOnly (typeErrorMessage env)\<rparr>
                        | Some False \<Rightarrow> rp = failureOf env (fModel f) r
                        | Some True \<Rightarrow>
                            length tr = length (fModel f # getModelFallbacks (fModel f)) \<and>
                            rp = failureOf env (fModel f) r))"
    using respond_openai_run[OF assms ne]
    unfolding g repliedBy_def thrownReply_def chatReply_def .
qed

section \<open>Failure replies\<close>

lemma upstreamMessage_preferred: "upstreamMessage env j raw = preferredMessage env j raw"
proof -
  let ?a = "getProp (getProp (Some j) (ascii ''error'')) (ascii ''message'')"
  let ?b = "getProp (Some j) (ascii ''message'')"
  have raw: "trim raw \<noteq> [] \<Longrightarrow> take 500 raw \<noteq> []" by (auto dest: trim_nonempty)
  show ?thesis
  proof (cases ?a)
    case None
    note a = None
    show ?thesis
    proof (cases ?b)
      case None
      with a show ?thesis
        by (auto simp: upstreamMessage_def preferredMessage_def orElse_def orElseV_def rawSlice_def
            dest: raw)
    next
      case (Some v)
      with a show ?thesis
        by (auto simp: upstreamMessage_def preferredMessage_def orElse_def orElseV_def rawSlice_def
            dest: raw)
    qed
  next
    case (Some u)
    note a = Some
    show ?thesis
    proof (cases ?b)
      case None
      with a show ?thesis
        by (auto simp: upstreamMessage_def preferredMessage_def orElse_def orElseV_def rawSlice_def
            dest: raw)
    next
      case (Some v)
      with a show ?thesis
        by (auto simp: upstreamMessage_def preferredMessage_def orElse_def orElseV_def rawSlice_def
            dest: raw)
    qed
  qed
qed

lemma repliedBy_failure:
  assumes "repliedBy env mdl m exh out rp" "jsonBody rp = UpstreamFailure e s ct d tm"
  shows "\<exists>r. out = Resp r \<and> \<not> resOk r \<and> rp = failureOf env mdl r"
  using assms
  by (auto simp: repliedBy_def thrownReply_def chatReply_def
      split: fetch_outcome.splits if_splits option.splits bool.splits)

lemma geminiBranch_failure:
  assumes "geminiBranch env ep tok mdl si up th w = (res, tr)"
    "jsonBody (case res of Inl msg \<Rightarrow> thrownReply msg | Inr rp \<Rightarrow> rp) = UpstreamFailure e s ct d tm"
  shows "\<exists>rq r. tr = [(rq, Resp r)] \<and> \<not> resOk r \<and> res = Inr (failureOf env mdl r)"
  using assms
  by (auto simp: geminiBranch_def Let_def thrownReply_def failureOf_def responseJson_def
      split: sum.splits prod.splits fetch_outcome.splits if_splits option.splits)

lemma respond_failure_last:
  assumes "respond env tok f w = (rp, tr)" "jsonBody rp = UpstreamFailure e s ct d tm"
  shows "\<exists>rq r. tr \<noteq> [] \<and> last tr = (rq, Resp r) \<and> \<not> resOk r \<and>
           rp = failureOf env (fModel f) r"
proof -
  have ne: "tr \<noteq> []"
  proof
    assume "tr = []"
    with assms show False
      unfolding respond_unfold
      by (auto simp: methodNotAllowed_def missingFields_def missingToken_def thrownReply_def
          openaiBranch_def
          split: if_splits sum.splits prod.splits loop_exit.splits dest: tryModels_nonempty
                 geminiBranch_failure)
  qed
  show ?thesis
  proof (cases "isOpenAI (fModel f)")
    case True
    from respond_openai_run[OF assms(1) True ne] obtain pre rq out where
      p: "tr = pre @ [(rq, out)]"
         "repliedBy env (fModel f)
             ((fModel f # getModelFallbacks (fModel f)) ! length pre)
             (length tr = length (fModel f # getModelFallbacks (fModel f))) out rp"
      by blast
    from repliedBy_failure[OF p(2) assms(2)] p(1) ne show ?thesis by auto
  next
    case False
    from respond_branch[OF assms(1) ne] False obtain ep res where
      b: "geminiBranch env ep tok (fModel f)
                   (fSystem f) (fPrompt f)
                   (fThinking f) w = (res, tr)"
      and rp: "rp = (case res of Inl msg \<Rightarrow> thrownReply msg | Inr rp \<Rightarrow> rp)"
      by auto
    from geminiBranch_failure[OF b assms(2)[unfolded rp]] rp show ?thesis by auto
  qed
qed

lemma respond_failure_reply:
  assumes "respond env tok f w = (rp, tr)" and "jsonBody rp = UpstreamFailure e s ct d tm"
  shows "\<exists>rq r. tr \<noteq> [] \<and> last tr = (rq, Resp r) \<and> \<not> resOk r \<and>
           statusCode rp = resStatus r \<and>
           e = preferredMessage env (responseJson env r) (resText r) \<and>
           s = resStatus r \<and>
           ct = strOrEmpty (resContentType r) \<and>
           d = (case jsonParse env (resText r) of
                  None \<Rightarrow> JStr (take 2000 (resText r))
                | Some j \<Rightarrow> if j = JNull then JStr (take 2000 (resText r)) else j) \<and>
           tm = fModel f # getModelFallbacks (fModel f)"
proof -
  from respond_failure_last[OF assms] obtain rq r where
    l: "tr \<noteq> []" "last tr = (rq, Resp r)" "\<not> resOk r" "rp = failureOf env (fModel f) r"
    by blast
  have d: "detailOf (responseJson env r) (resText r) =
        (case jsonParse env (resText r) of
                  None \<Rightarrow> JStr (take 2000 (resText r))
                | Some j \<Rightarrow> if j = JNull then JStr (take 2000 (resText r)) else j)"
    by (simp add: detailOf_def responseJson_def parseOrNull_def split: option.splits)
  from l(4) assms(2) have
    "statusCode rp = resStatus r" "e = upstreamMessage env (responseJson env r) (resText r)"
    "s = resStatus r" "ct = strOrEmpty (resContentType r)"
    "d = detailOf (responseJson env r) (resText r)"
    "tm = fModel f # getModelFallbacks (fModel f)"
    by (simp_all add: failureOf_def failureReply_def)
  with l(1-3) d show ?thesis by (auto simp: upstreamMessage_preferred)
qed

lemma join_texts:
  assumes "list_all (\<lambda>p. textField p \<noteq> None) ps"
  shows "joinElems ns [] (map (\<lambda>p. orElseV nz (getProp (Some p) (ascii ''text'')) (JStr [])) ps)
         = Some (concatTexts ps)"
  using assms
proof (induction ps)
  case Nil
  then show ?case by (simp add: concatTexts_def)
next
  case (Cons p ps)
  let ?f = "\<lambda>p. orElseV nz (getProp (Some p) (ascii ''text'')) (JStr [])"
  from Cons.prems obtain s where s: "textField p = Some s" by auto
  then have fp: "?f p = JStr s"
    by (auto simp: orElseV_def split: option.splits json.splits)
  have rest: "joinElems ns [] (map ?f ps) = Some (concatTexts ps)"
    using Cons by simp
  show ?case
    using fp rest s by (simp add: concatTexts_def)
qed

section \<open>The Gemini-compatible branch\<close>

lemma geminiBranch_unfold:
  assumes "parseURL env (generateContentUrl ep mdl) = Inr u"
  shows "\<exists>rq. fetchUrl rq = href u \<and>
     geminiBranch env ep tok mdl si up th w =
       (case fst (fetch env rq w) of
          Threw e \<Rightarrow> Inl e
        | Resp r \<Rightarrow>
            if \<not> resOk r then Inr (failureOf env mdl r)
            else (case partsText env (responseJson env r) of
                    None \<Rightarrow> Inl (typeErrorMessage env)
                  | Some t \<Rightarrow> Inr \<lparr>statusCode = 200, jsonBody = Generated (JStr t) mdl\<rparr>),
        [(rq, fst (fetch env rq w))])"
proof -
  let ?rq = "\<lparr>fetchUrl = href u,
              fetchHeaders = (if hostname u = ascii ''generativelanguage.googleapis.com''
                              then baseHeaders @ [(ascii ''x-goog-api-key'', tok)]
                              else bearerHeaders tok),
              fetchBody = GenerateContent si up (th \<and> includesStr mdl (ascii ''thinking''))\<rparr>"
  have "geminiBranch env ep tok mdl si up th w =
       (case fst (fetch env ?rq w) of
          Threw e \<Rightarrow> Inl e
        | Resp r \<Rightarrow>
            if \<not> resOk r then Inr (failureOf env mdl r)
            else (case partsText env (responseJson env r) of
                    None \<Rightarrow> Inl (typeErrorMessage env)
                  | Some t \<Rightarrow> Inr \<lparr>statusCode = 200, jsonBody = Generated (JStr t) mdl\<rparr>),
        [(?rq, fst (fetch env ?rq w))])"
    using assms
    by (cases "fetch env ?rq w")
       (simp add: geminiBranch_def generateContentUrl_def Let_def failureOf_def responseJson_def
          split: fetch_outcome.splits option.splits)
  then show ?thesis by (intro exI[of _ ?rq]) simp
qed

lemma partsText_cases:
  "(\<forall>ps. responseParts j = Some (JArr ps) \<and> list_all (\<lambda>p. textField p \<noteq> None) ps \<longrightarrow>
        partsText env j = Some (concatTexts ps)) \<and>
   ((\<forall>ps. responseParts j \<noteq> Some (JArr ps)) \<longrightarrow> partsText env j = Some [])"
  by (auto simp: partsText_def responseParts_def join_texts split: option.splits json.splits)

lemma respond_single_call:
  assumes "fModel f \<noteq> []"
    and "fSystem f \<noteq> []" and "fPrompt f \<noteq> []" and "tok \<noteq> []"
    and "\<not> isOpenAI (fModel f)"
    and "getUpstreamBase env (endpointOf f) = Inr ep"
    and "parseURL env (generateContentUrl ep (fModel f)) = Inr u"
    and "respond env tok f w = (rp, tr)"
  shows "\<exists>rq. tr = [(rq, fst (fetch env rq w))] \<and> fetchUrl rq = href u \<and>
           (\<forall>r. fst (fetch env rq w) = Resp r \<and> resOk r \<longrightarrow>
              rp = (case partsText env (responseJson env r) of
                      None \<Rightarrow> \<lparr>statusCode = 500, jsonBody = ErrorOnly (typeErrorMessage env)\<rparr>
                    | Some t \<Rightarrow> \<lparr>statusCode = 200, jsonBody = Generated (JStr t) (fModel f)\<rparr>) \<and>
              (\<forall>ps. responseParts (responseJson env r) = Some (JArr ps) \<and>
                    list_all (\<lambda>p. textField p \<noteq> None) ps \<longrightarrow>
                 rp = \<lparr>statusCode = 200,
                       jsonBody = Generated (JStr (concatTexts ps)) (fModel f)\<rparr>) \<and>
              ((\<forall>ps. responseParts (responseJson env r) \<noteq> Some (JArr ps)) \<longrightarrow>
                 rp = \<lparr>statusCode = 200, jsonBody = Generated (JStr []) (fModel f)\<rparr>))"
proof -
  from geminiBranch_unfold[OF assms(7), of "tok" "fSystem f"
      "fPrompt f" "fThinking f" w]
  obtain rq where rq: "fetchUrl rq = href u"
    and g: "geminiBranch env ep tok (fModel f) (fSystem f)
              (fPrompt f) (fThinking f) w =
       (case fst (fetch env rq w) of
          Threw e \<Rightarrow> Inl e
        | Resp r \<Rightarrow>
            if \<not> resOk r then Inr (failureOf env (fModel f) r)
            else (case partsText env (responseJson env r) of
                    None \<Rightarrow> Inl (typeErrorMessage env)
                  | Some t \<Rightarrow> Inr \<lparr>statusCode = 200, jsonBody = Generated (JStr t) (fModel f)\<rparr>),
        [(rq, fst (fetch env rq w))])"
    by blast
  have h: "respond env tok f w =
      (case (case fst (fetch env rq w) of
          Threw e \<Rightarrow> Inl e
        | Resp r \<Rightarrow>
            if \<not> resOk r then Inr (failureOf env (fModel f) r)
            else (case partsText env (responseJson env r) of
                    None \<Rightarrow> Inl (typeErrorMessage env)
                  | Some t \<Rightarrow> Inr \<lparr>statusCode = 200, jsonBody = Generated (JStr t) (fModel f)\<rparr>)) of
         Inl msg \<Rightarrow> thrownReply msg | Inr rp \<Rightarrow> rp, [(rq, fst (fetch env rq w))])"
    using assms(1-6) g by (simp add: respond_unfold split: sum.splits)
  have tr: "tr = [(rq, fst (fetch env rq w))]" using h assms(8) by simp
  have ok: "rp = (case partsText env (responseJson env r) of
                      None \<Rightarrow> \<lparr>statusCode = 500, jsonBody = ErrorOnly (typeErrorMessage env)\<rparr>
                    | Some t \<Rightarrow> \<lparr>statusCode = 200, jsonBody = Generated (JStr t) (fModel f)\<rparr>)"
    if "fst (fetch env rq w) = Resp r" "resOk r" for r
    using h assms(8) that by (simp add: thrownReply_def split: option.splits)
  show ?thesis
    using tr rq ok partsText_cases[of _ env]
    by (intro exI[of _ rq]) (auto split: option.splits)
qed

section \<open>Reading the request, and validation\<close>

lemma handler_not_post:
  "httpMethod req \<noteq> ascii ''POST'' \<Longrightarrow> handler env req w = (Replied methodNotAllowed, [])"
  by (simp add: handler_def methodNotAllowed_def)

lemma handler_uncaught:
  "httpMethod req = ascii ''POST'' \<Longrightarrow> readFields env req = None \<Longrightarrow>
   handler env req w = (Uncaught (typeErrorMessage env), [])"
  by (simp add: handler_def)

lemma handler_read:
  "httpMethod req = ascii ''POST'' \<Longrightarrow> readFields env req = Some f \<Longrightarrow>
   handler env req w =
     (Replied (fst (respond env (requestToken req) f w)), snd (respond env (requestToken req) f w))"
  by (simp add: handler_def requestToken_def split: prod.splits)

lemma readFields_Some_iff:
  "readFields env req = Some f \<longleftrightarrow>
     (\<exists>ms si up pe. modelString env req = Some ms \<and> requestSystem env req = Some si \<and>
        requestPrompt env req = Some up \<and>
        stringOr env (getProp (Some (bodyOf env req)) (ascii ''proxyEndpoint'')) defaultEndpoint = Some pe \<and>
        f = \<lparr>fModel = normalizeModel ms, fSystem = si, fPrompt = up,
              fThinking = requestThinking env req, fProxy = trim pe\<rparr>)"
  unfolding readFields_def Let_def modelString_def requestSystem_def requestPrompt_def
    requestThinking_def
  by (simp split: option.splits) blast

lemma readFields_SomeD:
  assumes "readFields env req = Some f"
  shows "\<exists>ms. modelString env req = Some ms \<and> fModel f = normalizeModel ms"
    and "requestModel env req = Some (fModel f)"
    and "requestSystem env req = Some (fSystem f)"
    and "requestPrompt env req = Some (fPrompt f)"
    and "requestProxy env req = Some (fProxy f)"
    and "requestEndpoint env req = Some (endpointOf f)"
    and "fThinking f = requestThinking env req"
proof -
  from assms[unfolded readFields_Some_iff] obtain ms si up pe where
    v: "modelString env req = Some ms" "requestSystem env req = Some si"
       "requestPrompt env req = Some up"
       "stringOr env (getProp (Some (bodyOf env req)) (ascii ''proxyEndpoint'')) defaultEndpoint = Some pe"
       "f = \<lparr>fModel = normalizeModel ms, fSystem = si, fPrompt = up,
              fThinking = requestThinking env req, fProxy = trim pe\<rparr>"
    by blast
  show "\<exists>ms. modelString env req = Some ms \<and> fModel f = normalizeModel ms"
    using v(1,5) by simp
  show "requestModel env req = Some (fModel f)" using v(1,5) by (simp add: requestModel_def)
  show "requestSystem env req = Some (fSystem f)" using v(2,5) by simp
  show "requestPrompt env req = Some (fPrompt f)" using v(3,5) by simp
  show p: "requestProxy env req = Some (fProxy f)" using v(4,5) by (simp add: requestProxy_def)
  show "requestEndpoint env req = Some (endpointOf f)"
    using p by (simp add: requestEndpoint_def endpointOf_def)
  show "fThinking f = requestThinking env req" using v(5) by simp
qed

lemma readFields_None_iff:
  "readFields env req = None \<longleftrightarrow>
     modelString env req = None \<or> requestSystem env req = None \<or> requestPrompt env req = None \<or>
     requestProxy env req = None"
  unfolding readFields_def Let_def modelString_def requestSystem_def requestPrompt_def
    requestProxy_def
  by (simp split: option.splits)

lemma requestModel_None_iff: "requestModel env req = None \<longleftrightarrow> modelString env req = None"
  by (simp add: requestModel_def)

lemma requestEndpoint_None_iff: "requestEndpoint env req = None \<longleftrightarrow> requestProxy env req = None"
  by (simp add: requestEndpoint_def)

lemma readFields_total:
  assumes "requestModel env req = Some m" "requestSystem env req = Some si"
    "requestPrompt env req = Some up" "requestEndpoint env req = Some e"
  shows "\<exists>f. readFields env req = Some f \<and> fModel f = m \<and> fSystem f = si \<and> fPrompt f = up \<and>
           endpointOf f = e \<and> fThinking f = requestThinking env req"
proof -
  have "readFields env req \<noteq> None"
    using assms by (auto simp: readFields_None_iff requestModel_None_iff[symmetric]
        requestEndpoint_None_iff[symmetric])
  then obtain f where f: "readFields env req = Some f" by auto
  from readFields_SomeD(2-4,6,7)[OF f] assms show ?thesis using f by auto
qed

lemma handler_trace:
  assumes "handler env req w = (out, tr)" "tr \<noteq> []"
  shows "\<exists>f rp. httpMethod req = ascii ''POST'' \<and> readFields env req = Some f \<and>
           respond env (requestToken req) f w = (rp, tr) \<and> out = Replied rp"
proof -
  have p: "httpMethod req = ascii ''POST''"
    using assms by (cases "httpMethod req = ascii ''POST''") (auto simp: handler_not_post)
  obtain f where f: "readFields env req = Some f"
    using assms p by (cases "readFields env req") (auto simp: handler_uncaught)
  from handler_read[OF p f, of w] assms(1) show ?thesis
    using p f by (cases "respond env (requestToken req) f w") auto
qed

lemma handler_replied:
  assumes "handler env req w = (Replied rp, tr)"
  shows "(httpMethod req \<noteq> ascii ''POST'' \<and> rp = methodNotAllowed \<and> tr = []) \<or>
         (httpMethod req = ascii ''POST'' \<and>
          (\<exists>f. readFields env req = Some f \<and> respond env (requestToken req) f w = (rp, tr)))"
proof (cases "httpMethod req = ascii ''POST''")
  case False
  with assms show ?thesis by (auto simp: handler_not_post)
next
  case True
  obtain f where f: "readFields env req = Some f"
    using assms True by (cases "readFields env req") (auto simp: handler_uncaught)
  from handler_read[OF True f, of w] assms show ?thesis
    using True f by (cases "respond env (requestToken req) f w") auto
qed




section \<open>The handler and the upstream\<close>

text \<open>
  Claim C3, as amended. For every request whose endpoint (the trimmed
  \<open>proxyEndpoint\<close>, or the default) parses as a URL with a host outside the allow-list,
  the handler makes no upstream call; when the request has passed the method, required
  field and credential checks, the reply is 500 with the host-not-allowed message.
\<close>

theorem host_not_allowed:
  assumes "requestEndpoint env req = Some e" and "parseURL env e = Inr u"
    and "hostname u \<notin> allowedHosts"
  shows "snd (handler env req w) = [] \<and>
         (httpMethod req = ascii ''POST'' \<and> requestModel env req = Some m \<and> m \<noteq> [] \<and>
          requestSystem env req = Some si \<and> si \<noteq> [] \<and> requestPrompt env req = Some up \<and>
          up \<noteq> [] \<and> requestToken req \<noteq> [] \<longrightarrow>
          handler env req w =
            (Replied \<lparr>statusCode = 500,
               jsonBody = ErrorOnly (ascii ''proxyEndpoint host not allowed'')\<rparr>, []))"
proof -
  have a: "snd (handler env req w) = []"
  proof (cases "httpMethod req = ascii ''POST''")
    case False
    then show ?thesis by (simp add: handler_not_post)
  next
    case True
    show ?thesis
    proof (cases "readFields env req")
      case None
      with True show ?thesis by (simp add: handler_uncaught)
    next
      case (Some f)
      from readFields_SomeD(6)[OF Some] assms(1) have "endpointOf f = e" by simp
      with assms(2) have "parseURL env (endpointOf f) = Inr u" by simp
      from respond_host_no_call[OF this assms(3)] show ?thesis
        by (simp add: handler_read[OF True Some])
    qed
  qed
  have b: "handler env req w =
            (Replied \<lparr>statusCode = 500,
               jsonBody = ErrorOnly (ascii ''proxyEndpoint host not allowed'')\<rparr>, [])"
    if v: "httpMethod req = ascii ''POST'' \<and> requestModel env req = Some m \<and> m \<noteq> [] \<and>
          requestSystem env req = Some si \<and> si \<noteq> [] \<and> requestPrompt env req = Some up \<and>
          up \<noteq> [] \<and> requestToken req \<noteq> []"
  proof -
    from v assms(1) readFields_total[of env req m si up e] obtain f where
      f: "readFields env req = Some f" "fModel f = m" "fSystem f = si" "fPrompt f = up"
         "endpointOf f = e"
      by blast
    have "respond env (requestToken req) f w =
            (thrownReply (ascii ''proxyEndpoint host not allowed''), [])"
      using v f assms(2,3) by (intro respond_host_rejected) auto
    with v f(1) show ?thesis by (simp add: handler_read thrownReply_def)
  qed
  show ?thesis using a b by blast
qed

text \<open>
  Claim C2, as amended. For every request whose normalized model starts with \<open>gpt\<close> or
  \<open>o1\<close>: once the request has passed validation and its endpoint and URL are accepted,
  at least one attempt is made; the attempts are for the candidates
  [NormalizedModel, FallbackChain...] in that order; every attempt but the last was a
  failure that looked like a model that was not found (status 404 and both tests on the
  message); the last attempt either succeeded, with reply 200 and \<open>usedModel\<close> its
  candidate, or failed and did not look like a model that was not found, or was the
  attempt for the last candidate, with the failure surfaced in both cases, or ended in
  an exception (the upstream call threw, or the conversion of the error message to a
  string for the tests threw), with reply 500.
\<close>

theorem openai_fallback:
  assumes "handler env req w = (out, tr)" and "requestModel env req = Some mdl"
    and "isOpenAI mdl"
  shows "(httpMethod req = ascii ''POST'' \<and> requestSystem env req = Some si \<and> si \<noteq> [] \<and>
          requestPrompt env req = Some up \<and> up \<noteq> [] \<and> requestToken req \<noteq> [] \<and>
          requestEndpoint env req = Some e \<and> getUpstreamBase env e = Inr ep \<and>
          parseURL env (chatCompletionsUrl ep) = Inr u \<longrightarrow> tr \<noteq> []) \<and>
         (tr \<noteq> [] \<longrightarrow>
          (\<exists>rp pre rq out'.
             out = Replied rp \<and>
             tr = pre @ [(rq, out')] \<and>
             length tr \<le> length (mdl # getModelFallbacks mdl) \<and>
             map sentModel tr = map Some (take (length tr) (mdl # getModelFallbacks mdl)) \<and>
             list_all (\<lambda>x. case snd x of Threw e \<Rightarrow> False
                            | Resp r \<Rightarrow> \<not> resOk r \<and> notFoundOf env r = Some True) pre \<and>
             (case out' of
                Threw e \<Rightarrow> rp = \<lparr>statusCode = 500, jsonBody = ErrorOnly e\<rparr>
              | Resp r \<Rightarrow>
                  if resOk r then
                    rp = \<lparr>statusCode = 200,
                          jsonBody = Generated (choiceText env (responseJson env r))
                            ((mdl # getModelFallbacks mdl) ! length pre)\<rparr>
                  else (case notFoundOf env r of
                          None \<Rightarrow> rp = \<lparr>statusCode = 500, jsonBody = ErrorOnly (typeErrorMessage env)\<rparr>
                        | Some False \<Rightarrow> rp = failureOf env mdl r
                        | Some True \<Rightarrow>
                            length tr = length (mdl # getModelFallbacks mdl) \<and>
                            rp = failureOf env mdl r))))"
  (is "(?valid \<longrightarrow> _) \<and> (_ \<longrightarrow> ?run)")
proof -
  have a: "tr \<noteq> []" if v: ?valid
  proof -
    from v assms(2) readFields_total[of env req mdl si up e] obtain f where
      f: "readFields env req = Some f" "fModel f = mdl" "fSystem f = si" "fPrompt f = up"
         "endpointOf f = e"
      by blast
    obtain rp' tr' where r: "respond env (requestToken req) f w = (rp', tr')"
      by (cases "respond env (requestToken req) f w")
    have iso: "isOpenAI (fModel f)" using f(2) assms(3) by simp
    have "fSystem f \<noteq> [] \<and> fPrompt f \<noteq> [] \<and> requestToken req \<noteq> [] \<and>
          getUpstreamBase env (endpointOf f) = Inr ep \<and>
          parseURL env (chatCompletionsUrl ep) = Inr u"
      using v f by simp
    with respond_fallback[OF r iso, THEN conjunct1, of ep u] have "tr' \<noteq> []" by blast
    moreover have "tr = tr'" using handler_read[of req env f w] v f(1) r assms(1) by simp
    ultimately show ?thesis by simp
  qed
  have b: ?run if ne: "tr \<noteq> []"
  proof -
    from handler_trace[OF assms(1) ne] obtain f rp where
      f: "readFields env req = Some f" and r: "respond env (requestToken req) f w = (rp, tr)"
      and o: "out = Replied rp"
      by blast
    from readFields_SomeD(2)[OF f] assms(2) have m: "fModel f = mdl" by simp
    have iso: "isOpenAI (fModel f)" using m assms(3) by simp
    from respond_fallback[OF r iso, THEN conjunct2, THEN mp, OF ne, unfolded m]
    obtain pre rq out' where
      "tr = pre @ [(rq, out')] \<and>
             length tr \<le> length (mdl # getModelFallbacks mdl) \<and>
             map sentModel tr = map Some (take (length tr) (mdl # getModelFallbacks mdl)) \<and>
             list_all (\<lambda>x. case snd x of Threw e \<Rightarrow> False
                            | Resp r \<Rightarrow> \<not> resOk r \<and> notFoundOf env r = Some True) pre \<and>
             (case out' of
                Threw e \<Rightarrow> rp = \<lparr>statusCode = 500, jsonBody = ErrorOnly e\<rparr>
              | Resp r \<Rightarrow>
                  if resOk r then
                    rp = \<lparr>statusCode = 200,
                          jsonBody = Generated (choiceText env (responseJson env r))
                            ((mdl # getModelFallbacks mdl) ! length pre)\<rparr>
                  else (case notFoundOf env r of
                          None \<Rightarrow> rp = \<lparr>statusCode = 500, jsonBody = ErrorOnly (typeErrorMessage env)\<rparr>
                        | Some False \<Rightarrow> rp = failureOf env mdl r
                        | Some True \<Rightarrow>
                            length tr = length (mdl # getModelFallbacks mdl) \<and>
                            rp = failureOf env mdl r))"
      by blast
    with o show ?thesis by blast
  qed
  show ?thesis using a b by blast
qed

text \<open>
  Claim C8, as amended. Every failure reply (in either family) comes from the last
  exchange, an upstream response that was not a success, and has: its status; as error
  the first truthy one of the structured body's \<open>error.message\<close>, its \<open>message\<close>,
  the raw body cut to 500 code units when it is not blank, and \<open>Upstream error\<close>; the
  content type; as detail the parsed body when the body parses to a value other than
  \<open>null\<close>, else the raw body cut to 2000 code units; and as \<open>triedModels\<close> the whole
  candidate list [NormalizedModel, FallbackChain...], attempted or not.
\<close>

theorem upstream_failure_reply:
  assumes "handler env req w = (Replied rp, tr)"
    and "jsonBody rp = UpstreamFailure e s ct d tm"
  shows "\<exists>rq r mdl. requestModel env req = Some mdl \<and>
           tr \<noteq> [] \<and> last tr = (rq, Resp r) \<and> \<not> resOk r \<and>
           statusCode rp = resStatus r \<and>
           e = preferredMessage env (responseJson env r) (resText r) \<and>
           s = resStatus r \<and>
           ct = strOrEmpty (resContentType r) \<and>
           d = (case jsonParse env (resText r) of
                  None \<Rightarrow> JStr (take 2000 (resText r))
                | Some j \<Rightarrow> if j = JNull then JStr (take 2000 (resText r)) else j) \<and>
           tm = mdl # getModelFallbacks mdl"
proof -
  from handler_replied[OF assms(1)] assms(2) obtain f where
    f: "readFields env req = Some f" and r: "respond env (requestToken req) f w = (rp, tr)"
    by (auto simp: methodNotAllowed_def)
  from respond_failure_reply[OF r assms(2)] obtain rq r' where
    "tr \<noteq> [] \<and> last tr = (rq, Resp r') \<and> \<not> resOk r' \<and>
           statusCode rp = resStatus r' \<and>
           e = preferredMessage env (responseJson env r') (resText r') \<and>
           s = resStatus r' \<and>
           ct = strOrEmpty (resContentType r') \<and>
           d = (case jsonParse env (resText r') of
                  None \<Rightarrow> JStr (take 2000 (resText r'))
                | Some j \<Rightarrow> if j = JNull then JStr (take 2000 (resText r')) else j) \<and>
           tm = fModel f # getModelFallbacks (fModel f)"
    by blast
  with readFields_SomeD(2)[OF f] show ?thesis by blast
qed

text \<open>
  Claim C5, as amended. For every request whose normalized model starts with neither
  \<open>gpt\<close> nor \<open>o1\<close>, that has passed validation, and whose endpoint and upstream URL
  are accepted: exactly one upstream call is made, whatever its outcome. When the
  upstream answers with a success status, the reply is 200 with \<open>usedModel\<close> the
  normalized model and as text the joined parts, unless the conversion of a part's text
  to a string throws (reply 500); the text is the concatenation of the \<open>text\<close> fields
  when every part's \<open>text\<close> is a string or absent, and the empty string when the
  first candidate's content parts are not an array.
\<close>

theorem gemini_single_call:
  assumes "httpMethod req = ascii ''POST''"
    and "requestModel env req = Some mdl" and "mdl \<noteq> []"
    and "requestSystem env req = Some si" and "si \<noteq> []"
    and "requestPrompt env req = Some up" and "up \<noteq> []"
    and "requestToken req \<noteq> []"
    and "\<not> isOpenAI mdl"
    and "requestEndpoint env req = Some e"
    and "getUpstreamBase env e = Inr ep"
    and "parseURL env (generateContentUrl ep mdl) = Inr u"
    and "handler env req w = (out, tr)"
  shows "\<exists>rq rp. out = Replied rp \<and> tr = [(rq, fst (fetch env rq w))] \<and> fetchUrl rq = href u \<and>
           (\<forall>r. fst (fetch env rq w) = Resp r \<and> resOk r \<longrightarrow>
              rp = (case partsText env (responseJson env r) of
                      None \<Rightarrow> \<lparr>statusCode = 500, jsonBody = ErrorOnly (typeErrorMessage env)\<rparr>
                    | Some t \<Rightarrow> \<lparr>statusCode = 200, jsonBody = Generated (JStr t) mdl\<rparr>) \<and>
              (\<forall>ps. responseParts (responseJson env r) = Some (JArr ps) \<and>
                    list_all (\<lambda>p. textField p \<noteq> None) ps \<longrightarrow>
                 rp = \<lparr>statusCode = 200, jsonBody = Generated (JStr (concatTexts ps)) mdl\<rparr>) \<and>
              ((\<forall>ps. responseParts (responseJson env r) \<noteq> Some (JArr ps)) \<longrightarrow>
                 rp = \<lparr>statusCode = 200, jsonBody = Generated (JStr []) mdl\<rparr>))"
proof -
  from assms(2,4,6,10) readFields_total[of env req mdl si up e] obtain f where
    f: "readFields env req = Some f" and m: "fModel f = mdl" and v: "fSystem f = si"
      "fPrompt f = up" "endpointOf f = e"
    by blast
  obtain rp tr' where r: "respond env (requestToken req) f w = (rp, tr')"
    by (cases "respond env (requestToken req) f w")
  from handler_read[OF assms(1) f, of w] r assms(13) have o: "out = Replied rp" "tr = tr'"
    by simp_all
  have h: "fModel f \<noteq> []" "fSystem f \<noteq> []" "fPrompt f \<noteq> []" "requestToken req \<noteq> []"
    "\<not> isOpenAI (fModel f)" "getUpstreamBase env (endpointOf f) = Inr ep"
    "parseURL env (generateContentUrl ep (fModel f)) = Inr u"
    using assms m v by simp_all
  from respond_single_call[OF h r, unfolded m] obtain rq where
    "tr' = [(rq, fst (fetch env rq w))] \<and> fetchUrl rq = href u \<and>
           (\<forall>r. fst (fetch env rq w) = Resp r \<and> resOk r \<longrightarrow>
              rp = (case partsText env (responseJson env r) of
                      None \<Rightarrow> \<lparr>statusCode = 500, jsonBody = ErrorOnly (typeErrorMessage env)\<rparr>
                    | Some t \<Rightarrow> \<lparr>statusCode = 200, jsonBody = Generated (JStr t) mdl\<rparr>) \<and>
              (\<forall>ps. responseParts (responseJson env r) = Some (JArr ps) \<and>
                    list_all (\<lambda>p. textField p \<noteq> None) ps \<longrightarrow>
                 rp = \<lparr>statusCode = 200, jsonBody = Generated (JStr (concatTexts ps)) mdl\<rparr>) \<and>
              ((\<forall>ps. responseParts (responseJson env r) \<noteq> Some (JArr ps)) \<longrightarrow>
                 rp = \<lparr>statusCode = 200, jsonBody = Generated (JStr []) mdl\<rparr>))"
    by blast
  with o show ?thesis by blast
qed

section \<open>Concrete runs on the test double\<close>

lemma trim_literals:
  "trim (ascii ''https://api.vectorengine.ai'') = ascii ''https://api.vectorengine.ai''"
  "trim (ascii ''https://evil.example.com'') = ascii ''https://evil.example.com''"
  "trim (ascii '' '') = []"
  by (simp_all add: trim_def ascii_def isWhiteSpace_def)

lemma stringOr_JStr: "stringOr env (Some (JStr s)) [] = Some s"
  by (simp add: stringOr_def)

lemma stringOr_JStr_default: "s \<noteq> [] \<Longrightarrow> stringOr env (Some (JStr s)) d = Some s"
  by (simp add: stringOr_def)

lemma stringOr_absent: "stringOr env None d = Some d"
  by (simp add: stringOr_def)

lemma key_distinct:
  "ascii ''model'' \<noteq> ascii ''systemInstruction''" "ascii ''model'' \<noteq> ascii ''userPrompt''"
  "ascii ''model'' \<noteq> ascii ''proxyEndpoint''" "ascii ''model'' \<noteq> ascii ''enableThinking''"
  "ascii ''systemInstruction'' \<noteq> ascii ''userPrompt''"
  "ascii ''systemInstruction'' \<noteq> ascii ''proxyEndpoint''"
  "ascii ''systemInstruction'' \<noteq> ascii ''enableThinking''"
  "ascii ''userPrompt'' \<noteq> ascii ''proxyEndpoint''"
  "ascii ''userPrompt'' \<noteq> ascii ''enableThinking''"
  "ascii ''proxyEndpoint'' \<noteq> ascii ''enableThinking''"
  by (simp_all add: ascii_def)

lemma postRequest_body:
  "bodyOf env (postRequest a m si up p) =
     JObj ([(ascii ''model'', JStr m), (ascii ''systemInstruction'', JStr si),
            (ascii ''userPrompt'', JStr up)] @
           (case p of None \<Rightarrow> [] | Some e \<Rightarrow> [(ascii ''proxyEndpoint'', JStr e)]))"
  by (simp add: bodyOf_def postRequest_def)

lemma postRequest_fields:
  "httpMethod (postRequest a m si up p) = ascii ''POST''"
  "modelString env (postRequest a m si up p) = Some m"
  "requestModel env (postRequest a m si up p) = Some (normalizeModel m)"
  "requestSystem env (postRequest a m si up p) = Some si"
  "requestPrompt env (postRequest a m si up p) = Some up"
  "requestToken (postRequest a m si up p) = rawTokenOf a"
  "requestThinking env (postRequest a m si up p) = False"
  using key_distinct
  by (auto simp: modelString_def requestModel_def requestSystem_def requestPrompt_def
      requestToken_def requestThinking_def postRequest_body stringOr_JStr
      split: option.splits)
     (simp_all add: postRequest_def)

lemma postRequest_endpoint:
  "requestProxy env (postRequest a m si up None) = Some (ascii ''https://api.vectorengine.ai'')"
  "requestEndpoint env (postRequest a m si up None) = Some (ascii ''https://api.vectorengine.ai'')"
  "requestProxy env (postRequest a m si up (Some (ascii ''https://evil.example.com''))) =
     Some (ascii ''https://evil.example.com'')"
  "requestEndpoint env (postRequest a m si up (Some (ascii ''https://evil.example.com''))) =
     Some (ascii ''https://evil.example.com'')"
proof -
  have n: "ascii ''https://api.vectorengine.ai'' \<noteq> []" "ascii ''https://evil.example.com'' \<noteq> []"
    by (simp_all add: ascii_def)
  show a: "requestProxy env (postRequest a m si up None) = Some (ascii ''https://api.vectorengine.ai'')"
    using key_distinct
    by (simp add: requestProxy_def postRequest_body stringOr_absent defaultEndpoint_def
        trim_literals)
  show b: "requestProxy env (postRequest a m si up (Some (ascii ''https://evil.example.com''))) =
     Some (ascii ''https://evil.example.com'')"
    using key_distinct n
    by (simp add: requestProxy_def postRequest_body stringOr_JStr_default trim_literals)
  show "requestEndpoint env (postRequest a m si up None) = Some (ascii ''https://api.vectorengine.ai'')"
    using n by (simp add: requestEndpoint_def a)
  show "requestEndpoint env (postRequest a m si up (Some (ascii ''https://evil.example.com''))) =
     Some (ascii ''https://evil.example.com'')"
    using n by (simp add: requestEndpoint_def b)
qed

lemma postRequest_read:
  "readFields env (postRequest a m si up None) =
     Some \<lparr>fModel = normalizeModel m, fSystem = si, fPrompt = up, fThinking = False,
           fProxy = ascii ''https://api.vectorengine.ai''\<rparr>"
  "readFields env (postRequest a m si up (Some (ascii ''https://evil.example.com''))) =
     Some \<lparr>fModel = normalizeModel m, fSystem = si, fPrompt = up, fThinking = False,
           fProxy = ascii ''https://evil.example.com''\<rparr>"
proof -
  have p: "\<And>q. requestProxy env (postRequest a m si up q) = Some e \<Longrightarrow>
     \<exists>pe. stringOr env (getProp (Some (bodyOf env (postRequest a m si up q))) (ascii ''proxyEndpoint''))
            defaultEndpoint = Some pe \<and> trim pe = e" for e
    by (auto simp: requestProxy_def)
  show "readFields env (postRequest a m si up None) =
     Some \<lparr>fModel = normalizeModel m, fSystem = si, fPrompt = up, fThinking = False,
           fProxy = ascii ''https://api.vectorengine.ai''\<rparr>"
    unfolding readFields_Some_iff
    using p[OF postRequest_endpoint(1)] by (auto simp: postRequest_fields)
  show "readFields env (postRequest a m si up (Some (ascii ''https://evil.example.com''))) =
     Some \<lparr>fModel = normalizeModel m, fSystem = si, fPrompt = up, fThinking = False,
           fProxy = ascii ''https://evil.example.com''\<rparr>"
    unfolding readFields_Some_iff
    using p[OF postRequest_endpoint(3)] by (auto simp: postRequest_fields)
qed

lemma normalize_literals:
  "normalizeModel (ascii ''4o-mini'') = ascii ''gpt-4o-mini''"
  "normalizeModel (ascii ''gpt-4o'') = ascii ''gpt-4o''"
  "normalizeModel (ascii ''gemini-1.5-pro'') = ascii ''gemini-1.5-pro''"
  by (simp_all add: normalizeModel_def trim_def ascii_def isWhiteSpace_def startsWith_def
      matchDottedNumeric_def isDigit_def match4o_def isLineTerminator_def)

lemma fallback_literals:
  "getModelFallbacks (ascii ''gpt-4o-mini'') = [ascii ''gpt-4o'']"
  "getModelFallbacks (ascii ''gpt-4o'') = [ascii ''gpt-4o-mini'']"
  "getModelFallbacks (ascii ''gemini-1.5-pro'') =
     [ascii ''gemini-1.5-flash'', ascii ''gemini-2.0-flash-exp'']"
  by (simp_all add: getModelFallbacks_def arrayFromSet_def familyCandidates_def trim_def
      startsWith_def ascii_def isWhiteSpace_def)

lemma isOpenAI_literals:
  "isOpenAI (ascii ''gpt-4o-mini'')" "isOpenAI (ascii ''gpt-4o'')"
  "\<not> isOpenAI (ascii ''gemini-1.5-pro'')"
  by (simp_all add: isOpenAI_def startsWith_def ascii_def)

lemma token_literals:
  "rawTokenOf (Some (ascii ''Bearer t'')) = ascii ''t''"
  "rawTokenOf None = []"
  by (simp_all add: rawTokenOf_def strOrEmpty_def startsWith_def trim_def ascii_def isWhiteSpace_def)

lemma parse_literals:
  "parseURL testEnv (ascii ''https://api.vectorengine.ai'') =
     Inr \<lparr>hostname = ascii ''api.vectorengine.ai'', href = ascii ''https://api.vectorengine.ai/''\<rparr>"
  "parseURL testEnv (ascii ''https://api.vectorengine.ai/v1/chat/completions'') =
     Inr \<lparr>hostname = ascii ''api.vectorengine.ai'',
          href = ascii ''https://api.vectorengine.ai/v1/chat/completions''\<rparr>"
  "parseURL testEnv (ascii ''https://api.vectorengine.ai/v1beta/models/gemini-1.5-pro:generateContent'') =
     Inr \<lparr>hostname = ascii ''api.vectorengine.ai'',
          href = ascii ''https://api.vectorengine.ai/v1beta/models/gemini-1.5-pro:generateContent''\<rparr>"
  "parseURL testEnv (ascii ''http://api.vectorengine.ai:8080/x'') =
     Inr \<lparr>hostname = ascii ''api.vectorengine.ai'', href = ascii ''http://api.vectorengine.ai:8080/x''\<rparr>"
  "parseURL testEnv (ascii ''https://evil.example.com'') =
     Inr \<lparr>hostname = ascii ''evil.example.com'', href = ascii ''https://evil.example.com/''\<rparr>"
  by (simp_all add: testEnv_def tableEnv_def testUrls_def ascii_def)

lemma allowed_literals:
  "ascii ''api.vectorengine.ai'' \<in> allowedHosts" "ascii ''evil.example.com'' \<notin> allowedHosts"
  by (simp_all add: allowedHosts_def ascii_def)

lemma base_literal:
  "getUpstreamBase testEnv (ascii ''https://api.vectorengine.ai'') =
     Inr (ascii ''https://api.vectorengine.ai'')"
  "getUpstreamBase testEnv (ascii ''http://api.vectorengine.ai:8080/x'') =
     Inr (ascii ''http://api.vectorengine.ai:8080/x'')"
proof -
  have s: "stripTrailingSlashes (ascii ''https://api.vectorengine.ai'') = ascii ''https://api.vectorengine.ai''"
    "stripTrailingSlashes (ascii ''http://api.vectorengine.ai:8080/x'') = ascii ''http://api.vectorengine.ai:8080/x''"
    by (simp_all add: stripTrailingSlashes_def ascii_def)
  show "getUpstreamBase testEnv (ascii ''https://api.vectorengine.ai'') =
     Inr (ascii ''https://api.vectorengine.ai'')"
    "getUpstreamBase testEnv (ascii ''http://api.vectorengine.ai:8080/x'') =
     Inr (ascii ''http://api.vectorengine.ai:8080/x'')"
    by (simp_all add: getUpstreamBase_def parse_literals allowed_literals s)
qed

lemma url_literals:
  "chatCompletionsUrl (ascii ''https://api.vectorengine.ai'') =
     ascii ''https://api.vectorengine.ai/v1/chat/completions''"
  "generateContentUrl (ascii ''https://api.vectorengine.ai'') (ascii ''gemini-1.5-pro'') =
     ascii ''https://api.vectorengine.ai/v1beta/models/gemini-1.5-pro:generateContent''"
  by (simp_all add: chatCompletionsUrl_def generateContentUrl_def endsWith_def startsWith_def
      ascii_def)

lemma fetch_script: "fetch testEnv rq (out # rest) = (out, rest)"
  by (simp add: testEnv_def tableEnv_def scriptedFetch_def)

lemma body_distinct:
  "helloBody \<noteq> abBody" "helloBody \<noteq> notFoundBody" "helloBody \<noteq> oddBody"
  "abBody \<noteq> notFoundBody" "abBody \<noteq> oddBody" "notFoundBody \<noteq> oddBody"
  "ascii ''boom'' \<noteq> helloBody" "ascii ''boom'' \<noteq> abBody" "ascii ''boom'' \<noteq> notFoundBody"
  "ascii ''boom'' \<noteq> oddBody"
  by (simp_all add: helloBody_def abBody_def notFoundBody_def oddBody_def dq_def ascii_def)

lemma json_literals:
  "responseJson testEnv \<lparr>resStatus = st, resContentType = c, resText = helloBody\<rparr> =
     JObj [(ascii ''choices'',
           JArr [JObj [(ascii ''message'', JObj [(ascii ''content'', JStr (ascii ''hello''))])]])]"
  "responseJson testEnv \<lparr>resStatus = st, resContentType = c, resText = abBody\<rparr> =
     JObj [(ascii ''candidates'',
           JArr [JObj [(ascii ''content'',
             JObj [(ascii ''parts'',
               JArr [JObj [(ascii ''text'', JStr (ascii ''a''))],
                     JObj [(ascii ''text'', JStr (ascii ''b''))]])])]])]"
  "responseJson testEnv \<lparr>resStatus = st, resContentType = c, resText = notFoundBody\<rparr> =
     JObj [(ascii ''error'', JObj [(ascii ''message'', JStr (ascii ''model not found''))])]"
  "responseJson testEnv \<lparr>resStatus = st, resContentType = c, resText = oddBody\<rparr> =
     JObj [(ascii ''error'',
           JObj [(ascii ''message'', JObj [(ascii ''toString'', JNum 1)])])]"
  "responseJson testEnv \<lparr>resStatus = st, resContentType = c, resText = ascii ''boom''\<rparr> = JNull"
  using body_distinct
  by (simp_all add: responseJson_def parseOrNull_def testEnv_def tableEnv_def testBodies_def)

lemma choice_literal:
  "choiceText testEnv (JObj [(ascii ''choices'',
           JArr [JObj [(ascii ''message'', JObj [(ascii ''content'', JStr (ascii ''hello''))])]])])
   = JStr (ascii ''hello'')"
  by (simp add: choiceText_def orElseV_def ascii_def)

lemma notFound_literals:
  "notFoundOf testEnv \<lparr>resStatus = 404, resContentType = c, resText = notFoundBody\<rparr> = Some True"
  "notFoundOf testEnv \<lparr>resStatus = 404, resContentType = c, resText = oddBody\<rparr> = None"
  "notFoundOf testEnv \<lparr>resStatus = 500, resContentType = c, resText = ascii ''boom''\<rparr> = Some False"
    apply (simp_all add: notFoundOf_def json_literals)
    apply (simp_all add: looksLikeModelNotFound_def orElse_def orElseV_def rawSlice_def testCI_def
      notFoundPhrases_def canonicalize_def startsWith_def ascii_def Let_def)
  done

lemma resOk_literals:
  "resOk \<lparr>resStatus = 200, resContentType = c, resText = t\<rparr>"
  "\<not> resOk \<lparr>resStatus = 404, resContentType = c, resText = t\<rparr>"
  "\<not> resOk \<lparr>resStatus = 500, resContentType = c, resText = t\<rparr>"
  by (simp_all add: resOk_def)

lemma run_openai:
  assumes "isOpenAI (normalizeModel m)" "si \<noteq> []" "up \<noteq> []" "rawTokenOf a \<noteq> []"
  shows "handler testEnv (postRequest a m si up None) w =
     (case tryModels testEnv (\<lambda>c. chatRequest (rawTokenOf a) c si up)
             (normalizeModel m # getModelFallbacks (normalizeModel m))
             \<lparr>lastStatus = 500, lastRaw = [], lastContentType = [], lastJson = JNull\<rparr> w of
        (ex, tr) \<Rightarrow>
          (Replied (case ex of Returned rp \<Rightarrow> rp | Raised msg \<Rightarrow> thrownReply msg
           | Fell st \<Rightarrow> failureReply testEnv (normalizeModel m) (lastStatus st)
                          (lastContentType st) (lastRaw st) (lastJson st)), tr))"
proof -
  let ?f = "\<lparr>fModel = normalizeModel m, fSystem = si, fPrompt = up, fThinking = False,
           fProxy = ascii ''https://api.vectorengine.ai''\<rparr>"
  have e: "endpointOf ?f = ascii ''https://api.vectorengine.ai''"
    by (simp add: endpointOf_def) (simp add: ascii_def)
  have ne: "normalizeModel m \<noteq> []" using assms(1) by (rule isOpenAI_nonempty)
  have o: "openaiBranch testEnv (ascii ''https://api.vectorengine.ai'') (rawTokenOf a)
             (normalizeModel m) si up w =
     (case tryModels testEnv (\<lambda>c. chatRequest (rawTokenOf a) c si up)
             (normalizeModel m # getModelFallbacks (normalizeModel m))
             \<lparr>lastStatus = 500, lastRaw = [], lastContentType = [], lastJson = JNull\<rparr> w of
        (ex, tr) \<Rightarrow>
          (case ex of Returned rp \<Rightarrow> Inr rp | Raised msg \<Rightarrow> Inl msg
           | Fell st \<Rightarrow> Inr (failureReply testEnv (normalizeModel m) (lastStatus st)
                          (lastContentType st) (lastRaw st) (lastJson st)), tr))"
    by (simp add: openaiBranch_def url_literals parse_literals chatRequest_def
        split: prod.splits loop_exit.splits)
  have r: "respond testEnv (rawTokenOf a) ?f w =
     (case tryModels testEnv (\<lambda>c. chatRequest (rawTokenOf a) c si up)
             (normalizeModel m # getModelFallbacks (normalizeModel m))
             \<lparr>lastStatus = 500, lastRaw = [], lastContentType = [], lastJson = JNull\<rparr> w of
        (ex, tr) \<Rightarrow>
          (case ex of Returned rp \<Rightarrow> rp | Raised msg \<Rightarrow> thrownReply msg
           | Fell st \<Rightarrow> failureReply testEnv (normalizeModel m) (lastStatus st)
                          (lastContentType st) (lastRaw st) (lastJson st), tr))"
    using assms ne
    by (simp add: respond_unfold e base_literal o split: prod.splits loop_exit.splits)
  show ?thesis
    unfolding handler_read[OF postRequest_fields(1) postRequest_read(1)] postRequest_fields r
    by (simp split: prod.splits)
qed

lemma run_hello:
  "handler testEnv
     (postRequest (Some (ascii ''Bearer t'')) (ascii ''4o-mini'') (ascii ''You are helpful'')
        (ascii ''hi'') None)
     [jsonResponse 200 helloBody] =
   (Replied \<lparr>statusCode = 200, jsonBody = Generated (JStr (ascii ''hello'')) (ascii ''gpt-4o-mini'')\<rparr>,
    [(chatRequest (ascii ''t'') (ascii ''gpt-4o-mini'') (ascii ''You are helpful'') (ascii ''hi''),
      jsonResponse 200 helloBody)])"
proof -
  have a: "isOpenAI (normalizeModel (ascii ''4o-mini''))" "ascii ''You are helpful'' \<noteq> []"
    "ascii ''hi'' \<noteq> []" "rawTokenOf (Some (ascii ''Bearer t'')) \<noteq> []"
    by (simp_all add: normalize_literals isOpenAI_literals token_literals) (simp_all add: ascii_def)
  show ?thesis
    unfolding run_openai[OF a]
    by (simp add: normalize_literals fallback_literals token_literals tryModels_Cons fetch_script
        jsonResponse_def resOk_literals chatReply_def json_literals choice_literal)
qed

lemma run_fallback:
  "handler testEnv
     (postRequest (Some (ascii ''Bearer t'')) (ascii ''4o-mini'') (ascii ''You are helpful'')
        (ascii ''hi'') None)
     [jsonResponse 404 notFoundBody, jsonResponse 200 helloBody] =
   (Replied \<lparr>statusCode = 200, jsonBody = Generated (JStr (ascii ''hello'')) (ascii ''gpt-4o'')\<rparr>,
    [(chatRequest (ascii ''t'') (ascii ''gpt-4o-mini'') (ascii ''You are helpful'') (ascii ''hi''),
      jsonResponse 404 notFoundBody),
     (chatRequest (ascii ''t'') (ascii ''gpt-4o'') (ascii ''You are helpful'') (ascii ''hi''),
      jsonResponse 200 helloBody)])"
proof -
  have a: "isOpenAI (normalizeModel (ascii ''4o-mini''))" "ascii ''You are helpful'' \<noteq> []"
    "ascii ''hi'' \<noteq> []" "rawTokenOf (Some (ascii ''Bearer t'')) \<noteq> []"
    by (simp_all add: normalize_literals isOpenAI_literals token_literals) (simp_all add: ascii_def)
  show ?thesis
    unfolding run_openai[OF a]
    by (simp add: normalize_literals fallback_literals token_literals tryModels_Cons fetch_script
        jsonResponse_def resOk_literals chatReply_def json_literals choice_literal
        notFound_literals)
qed

lemma run_odd:
  "handler testEnv
     (postRequest (Some (ascii ''Bearer t'')) (ascii ''gpt-4o'') (ascii ''You are helpful'')
        (ascii ''hi'') None)
     [jsonResponse 404 oddBody, jsonResponse 200 helloBody] =
   (Replied \<lparr>statusCode = 500,
      jsonBody = ErrorOnly (ascii ''Cannot convert object to primitive value'')\<rparr>,
    [(chatRequest (ascii ''t'') (ascii ''gpt-4o'') (ascii ''You are helpful'') (ascii ''hi''),
      jsonResponse 404 oddBody)])"
proof -
  have a: "isOpenAI (normalizeModel (ascii ''gpt-4o''))" "ascii ''You are helpful'' \<noteq> []"
    "ascii ''hi'' \<noteq> []" "rawTokenOf (Some (ascii ''Bearer t'')) \<noteq> []"
    by (simp_all add: normalize_literals isOpenAI_literals token_literals) (simp_all add: ascii_def)
  have t: "typeErrorMessage testEnv = ascii ''Cannot convert object to primitive value''"
    by (simp add: testEnv_def tableEnv_def)
  show ?thesis
    unfolding run_openai[OF a]
    by (simp add: normalize_literals fallback_literals token_literals tryModels_Cons fetch_script
        jsonResponse_def resOk_literals notFound_literals thrownReply_def t)
qed

lemma run_boom:
  "handler testEnv
     (postRequest (Some (ascii ''Bearer t'')) (ascii ''gpt-4o'') (ascii ''You are helpful'')
        (ascii ''hi'') None)
     [jsonResponse 500 (ascii ''boom'')] =
   (Replied \<lparr>statusCode = 500,
      jsonBody = UpstreamFailure (JStr (ascii ''boom'')) 500 (ascii ''application/json'')
        (JStr (ascii ''boom'')) [ascii ''gpt-4o'', ascii ''gpt-4o-mini'']\<rparr>,
    [(chatRequest (ascii ''t'') (ascii ''gpt-4o'') (ascii ''You are helpful'') (ascii ''hi''),
      jsonResponse 500 (ascii ''boom''))])"
proof -
  have a: "isOpenAI (normalizeModel (ascii ''gpt-4o''))" "ascii ''You are helpful'' \<noteq> []"
    "ascii ''hi'' \<noteq> []" "rawTokenOf (Some (ascii ''Bearer t'')) \<noteq> []"
    by (simp_all add: normalize_literals isOpenAI_literals token_literals) (simp_all add: ascii_def)
  have m: "upstreamMessage testEnv JNull (ascii ''boom'') = JStr (ascii ''boom'')"
    by (simp add: upstreamMessage_def orElse_def orElseV_def rawSlice_def trim_def
        isWhiteSpace_def ascii_def)
  have d: "detailOf (JNull :: nat json) (ascii ''boom'') = JStr (ascii ''boom'')"
    by (simp add: detailOf_def ascii_def)
  show ?thesis
    unfolding run_openai[OF a]
    by (simp add: normalize_literals fallback_literals token_literals tryModels_Cons fetch_script
        jsonResponse_def resOk_literals notFound_literals lastOf_def json_literals
        failureReply_def strOrEmpty_def m d)
qed

lemma literal_nonempty:
  "ascii ''You are helpful'' \<noteq> []" "ascii ''hi'' \<noteq> []" "ascii ''t'' \<noteq> []"
  "ascii ''gpt-4o'' \<noteq> []" "ascii ''gemini-1.5-pro'' \<noteq> []" "ascii '' '' \<noteq> []"
  by (simp_all add: ascii_def)

lemma handler_no_token:
  assumes "httpMethod req = ascii ''POST''" "readFields env req = Some f"
    "fModel f \<noteq> []" "fSystem f \<noteq> []" "fPrompt f \<noteq> []" "requestToken req = []"
  shows "handler env req w = (Replied missingToken, [])"
  using respond_no_token[OF assms(3-6), of env w] by (simp add: handler_read[OF assms(1,2)])









text \<open>
  A POST request for \<open>https://evil.example.com\<close> without a credential is answered
  401, not 500: the credential is checked before the endpoint.
\<close>

theorem host_not_allowed_counterexample:
  "requestEndpoint testEnv
      (postRequest None (ascii ''gpt-4o'') (ascii ''You are helpful'') (ascii ''hi'')
         (Some (ascii ''https://evil.example.com''))) = Some (ascii ''https://evil.example.com'') \<and>
   parseURL testEnv (ascii ''https://evil.example.com'') =
     Inr \<lparr>hostname = ascii ''evil.example.com'', href = ascii ''https://evil.example.com/''\<rparr> \<and>
   ascii ''evil.example.com'' \<notin> allowedHosts \<and>
   handler testEnv
     (postRequest None (ascii ''gpt-4o'') (ascii ''You are helpful'') (ascii ''hi'')
        (Some (ascii ''https://evil.example.com''))) [] =
     (Replied \<lparr>statusCode = 401, jsonBody = ErrorOnly (ascii ''Missing Proxy Token'')\<rparr>, [])"
proof -
  let ?r = "postRequest None (ascii ''gpt-4o'') (ascii ''You are helpful'') (ascii ''hi'')
        (Some (ascii ''https://evil.example.com''))"
  have "handler testEnv ?r [] = (Replied missingToken, [])"
    by (rule handler_no_token[OF postRequest_fields(1) postRequest_read(2)])
       (simp_all add: postRequest_fields token_literals normalize_literals literal_nonempty)
  then show ?thesis
    by (simp add: postRequest_endpoint parse_literals allowed_literals missingToken_def)
qed

theorem host_not_allowed_witness:
  "requestEndpoint testEnv
      (postRequest (Some (ascii ''Bearer t'')) (ascii ''gpt-4o'') (ascii ''You are helpful'')
         (ascii ''hi'') (Some (ascii ''https://evil.example.com''))) =
     Some (ascii ''https://evil.example.com'') \<and>
   parseURL testEnv (ascii ''https://evil.example.com'') =
     Inr \<lparr>hostname = ascii ''evil.example.com'', href = ascii ''https://evil.example.com/''\<rparr> \<and>
   ascii ''evil.example.com'' \<notin> allowedHosts \<and>
   handler testEnv
     (postRequest (Some (ascii ''Bearer t'')) (ascii ''gpt-4o'') (ascii ''You are helpful'')
        (ascii ''hi'') (Some (ascii ''https://evil.example.com'')))
     [jsonResponse 200 helloBody] =
     (Replied \<lparr>statusCode = 500,
        jsonBody = ErrorOnly (ascii ''proxyEndpoint host not allowed'')\<rparr>, [])"
proof -
  let ?r = "postRequest (Some (ascii ''Bearer t'')) (ascii ''gpt-4o'') (ascii ''You are helpful'')
        (ascii ''hi'') (Some (ascii ''https://evil.example.com''))"
  let ?u = "\<lparr>hostname = ascii ''evil.example.com'', href = ascii ''https://evil.example.com/''\<rparr>"
  have e: "requestEndpoint testEnv ?r = Some (ascii ''https://evil.example.com'')"
    by (rule postRequest_endpoint(4))
  have p: "parseURL testEnv (ascii ''https://evil.example.com'') = Inr ?u"
    by (simp add: parse_literals)
  have h: "hostname ?u \<notin> allowedHosts" by (simp add: allowed_literals)
  have v: "httpMethod ?r = ascii ''POST'' \<and>
          requestModel testEnv ?r = Some (ascii ''gpt-4o'') \<and> ascii ''gpt-4o'' \<noteq> [] \<and>
          requestSystem testEnv ?r = Some (ascii ''You are helpful'') \<and>
          ascii ''You are helpful'' \<noteq> [] \<and>
          requestPrompt testEnv ?r = Some (ascii ''hi'') \<and> ascii ''hi'' \<noteq> [] \<and>
          requestToken ?r \<noteq> []"
    by (simp add: postRequest_fields token_literals normalize_literals literal_nonempty)
  have "handler testEnv ?r [jsonResponse 200 helloBody] =
     (Replied \<lparr>statusCode = 500,
        jsonBody = ErrorOnly (ascii ''proxyEndpoint host not allowed'')\<rparr>, [])"
    using host_not_allowed[of testEnv ?r "ascii ''https://evil.example.com''" ?u
        "[jsonResponse 200 helloBody]" "ascii ''gpt-4o''" "ascii ''You are helpful''"
        "ascii ''hi''", OF e p h] v by blast
  with e p h show ?thesis by simp
qed

theorem allowed_host_accepted_witness:
  "parseURL testEnv (ascii ''http://api.vectorengine.ai:8080/x'') =
     Inr \<lparr>hostname = ascii ''api.vectorengine.ai'', href = ascii ''http://api.vectorengine.ai:8080/x''\<rparr> \<and>
   ascii ''api.vectorengine.ai'' \<in> allowedHosts \<and>
   getUpstreamBase testEnv (ascii ''http://api.vectorengine.ai:8080/x'') =
     Inr (ascii ''http://api.vectorengine.ai:8080/x'')"
proof -
  let ?u = "\<lparr>hostname = ascii ''api.vectorengine.ai'', href = ascii ''http://api.vectorengine.ai:8080/x''\<rparr>"
  have p: "parseURL testEnv (ascii ''http://api.vectorengine.ai:8080/x'') = Inr ?u"
    by (simp add: parse_literals)
  have h: "hostname ?u \<in> allowedHosts" by (simp add: allowed_literals)
  have s: "stripTrailingSlashes (ascii ''http://api.vectorengine.ai:8080/x'') =
           ascii ''http://api.vectorengine.ai:8080/x''"
    by (simp add: stripTrailingSlashes_def ascii_def)
  have "getUpstreamBase testEnv (ascii ''http://api.vectorengine.ai:8080/x'') =
     Inr (stripTrailingSlashes (ascii ''http://api.vectorengine.ai:8080/x''))"
    using allowed_host_accepted[OF p h] by blast
  with p h s show ?thesis by simp
qed

theorem openai_fallback_witness:
  "requestModel testEnv (postRequest (Some (ascii ''Bearer t'')) (ascii ''4o-mini'')
      (ascii ''You are helpful'') (ascii ''hi'') None) = Some (ascii ''gpt-4o-mini'') \<and>
   isOpenAI (ascii ''gpt-4o-mini'') \<and>
   ascii ''gpt-4o-mini'' # getModelFallbacks (ascii ''gpt-4o-mini'') =
     [ascii ''gpt-4o-mini'', ascii ''gpt-4o''] \<and>
   handler testEnv
     (postRequest (Some (ascii ''Bearer t'')) (ascii ''4o-mini'') (ascii ''You are helpful'')
        (ascii ''hi'') None)
     [jsonResponse 404 notFoundBody, jsonResponse 200 helloBody] =
   (Replied \<lparr>statusCode = 200, jsonBody = Generated (JStr (ascii ''hello'')) (ascii ''gpt-4o'')\<rparr>,
    [(chatRequest (ascii ''t'') (ascii ''gpt-4o-mini'') (ascii ''You are helpful'') (ascii ''hi''),
      jsonResponse 404 notFoundBody),
     (chatRequest (ascii ''t'') (ascii ''gpt-4o'') (ascii ''You are helpful'') (ascii ''hi''),
      jsonResponse 200 helloBody)]) \<and>
   map sentModel
    [(chatRequest (ascii ''t'') (ascii ''gpt-4o-mini'') (ascii ''You are helpful'') (ascii ''hi''),
      jsonResponse 404 notFoundBody),
     (chatRequest (ascii ''t'') (ascii ''gpt-4o'') (ascii ''You are helpful'') (ascii ''hi''),
      jsonResponse 200 helloBody)] = [Some (ascii ''gpt-4o-mini''), Some (ascii ''gpt-4o'')]"
proof -
  let ?r = "postRequest (Some (ascii ''Bearer t'')) (ascii ''4o-mini'') (ascii ''You are helpful'')
        (ascii ''hi'') None"
  let ?tr = "[(chatRequest (ascii ''t'') (ascii ''gpt-4o-mini'') (ascii ''You are helpful'') (ascii ''hi''),
      jsonResponse 404 notFoundBody),
     (chatRequest (ascii ''t'') (ascii ''gpt-4o'') (ascii ''You are helpful'') (ascii ''hi''),
      jsonResponse 200 helloBody)]"
  have m: "requestModel testEnv ?r = Some (ascii ''gpt-4o-mini'')"
    by (simp add: postRequest_fields normalize_literals)
  have i: "isOpenAI (ascii ''gpt-4o-mini'')" by (simp add: isOpenAI_literals)
  have c: "ascii ''gpt-4o-mini'' # getModelFallbacks (ascii ''gpt-4o-mini'') =
      [ascii ''gpt-4o-mini'', ascii ''gpt-4o'']"
    by (simp add: fallback_literals)
  have ne: "?tr \<noteq> []" by simp
  from openai_fallback[OF run_fallback m i, THEN conjunct2, THEN mp, OF ne]
  obtain pre rq out where
    "?tr = pre @ [(rq, out)]"
    "map sentModel ?tr = map Some (take (length ?tr)
        (ascii ''gpt-4o-mini'' # getModelFallbacks (ascii ''gpt-4o-mini'')))"
    by blast
  then have s: "map sentModel ?tr = [Some (ascii ''gpt-4o-mini''), Some (ascii ''gpt-4o'')]"
    unfolding c by simp
  show ?thesis by (intro conjI) (rule m i c run_fallback s)+
qed

text \<open>
  The upstream answers the first attempt with 404 and an error message that is an object
  with an own property \<open>toString\<close>. The handler neither goes on to the next candidate
  nor surfaces the 404: the test of line 160 throws and the reply is 500.
\<close>

theorem openai_fallback_counterexample:
  "requestModel testEnv (postRequest (Some (ascii ''Bearer t'')) (ascii ''gpt-4o'')
      (ascii ''You are helpful'') (ascii ''hi'') None) = Some (ascii ''gpt-4o'') \<and>
   isOpenAI (ascii ''gpt-4o'') \<and>
   getModelFallbacks (ascii ''gpt-4o'') = [ascii ''gpt-4o-mini''] \<and>
   handler testEnv
     (postRequest (Some (ascii ''Bearer t'')) (ascii ''gpt-4o'') (ascii ''You are helpful'')
        (ascii ''hi'') None)
     [jsonResponse 404 oddBody, jsonResponse 200 helloBody] =
   (Replied \<lparr>statusCode = 500,
      jsonBody = ErrorOnly (ascii ''Cannot convert object to primitive value'')\<rparr>,
    [(chatRequest (ascii ''t'') (ascii ''gpt-4o'') (ascii ''You are helpful'') (ascii ''hi''),
      jsonResponse 404 oddBody)])"
  by (simp add: run_odd postRequest_fields normalize_literals isOpenAI_literals fallback_literals)

text \<open>
  The upstream answers the only attempt, for \<open>gpt-4o\<close>, with 500: \<open>triedModels\<close>
  also lists \<open>gpt-4o-mini\<close>, which was not attempted.
\<close>

theorem upstream_failure_reply_counterexample:
  "handler testEnv
     (postRequest (Some (ascii ''Bearer t'')) (ascii ''gpt-4o'') (ascii ''You are helpful'')
        (ascii ''hi'') None)
     [jsonResponse 500 (ascii ''boom'')] =
   (Replied \<lparr>statusCode = 500,
      jsonBody = UpstreamFailure (JStr (ascii ''boom'')) 500 (ascii ''application/json'')
        (JStr (ascii ''boom'')) [ascii ''gpt-4o'', ascii ''gpt-4o-mini'']\<rparr>,
    [(chatRequest (ascii ''t'') (ascii ''gpt-4o'') (ascii ''You are helpful'') (ascii ''hi''),
      jsonResponse 500 (ascii ''boom''))]) \<and>
   map sentModel
    [(chatRequest (ascii ''t'') (ascii ''gpt-4o'') (ascii ''You are helpful'') (ascii ''hi''),
      jsonResponse 500 (ascii ''boom''))] = [Some (ascii ''gpt-4o'')]"
  by (simp add: run_boom chatRequest_def)

theorem upstream_failure_reply_witness:
  "handler testEnv
     (postRequest (Some (ascii ''Bearer t'')) (ascii ''gpt-4o'') (ascii ''You are helpful'')
        (ascii ''hi'') None)
     [jsonResponse 500 (ascii ''boom'')] =
   (Replied \<lparr>statusCode = 500,
      jsonBody = UpstreamFailure (JStr (ascii ''boom'')) 500 (ascii ''application/json'')
        (JStr (ascii ''boom'')) [ascii ''gpt-4o'', ascii ''gpt-4o-mini'']\<rparr>,
    [(chatRequest (ascii ''t'') (ascii ''gpt-4o'') (ascii ''You are helpful'') (ascii ''hi''),
      jsonResponse 500 (ascii ''boom''))]) \<and>
   JStr (ascii ''boom'') =
     preferredMessage testEnv
       (responseJson testEnv \<lparr>resStatus = 500, resContentType = Some (ascii ''application/json''),
          resText = ascii ''boom''\<rparr>) (ascii ''boom'') \<and>
   requestModel testEnv (postRequest (Some (ascii ''Bearer t'')) (ascii ''gpt-4o'')
        (ascii ''You are helpful'') (ascii ''hi'') None) = Some (ascii ''gpt-4o'') \<and>
   [ascii ''gpt-4o'', ascii ''gpt-4o-mini''] =
     ascii ''gpt-4o'' # getModelFallbacks (ascii ''gpt-4o'')"
proof -
  let ?r = "postRequest (Some (ascii ''Bearer t'')) (ascii ''gpt-4o'') (ascii ''You are helpful'')
        (ascii ''hi'') None"
  let ?rp = "\<lparr>statusCode = 500,
      jsonBody = UpstreamFailure (JStr (ascii ''boom'')) 500 (ascii ''application/json'')
        (JStr (ascii ''boom'')) [ascii ''gpt-4o'', ascii ''gpt-4o-mini'']\<rparr> :: nat reply"
  have b: "jsonBody ?rp = UpstreamFailure (JStr (ascii ''boom'')) 500 (ascii ''application/json'')
        (JStr (ascii ''boom'')) [ascii ''gpt-4o'', ascii ''gpt-4o-mini'']"
    by simp
  have m: "requestModel testEnv ?r = Some (ascii ''gpt-4o'')"
    by (simp add: postRequest_fields normalize_literals)
  from upstream_failure_reply[OF run_boom b] obtain rq r mdl where
    rm: "requestModel testEnv ?r = Some mdl"
    and l: "last [(chatRequest (ascii ''t'') (ascii ''gpt-4o'') (ascii ''You are helpful'') (ascii ''hi''),
          jsonResponse 500 (ascii ''boom''))] = (rq, Resp r)"
    and e: "JStr (ascii ''boom'') = preferredMessage testEnv (responseJson testEnv r) (resText r)"
    and t: "[ascii ''gpt-4o'', ascii ''gpt-4o-mini''] = mdl # getModelFallbacks mdl"
    by blast
  from rm m have mdl: "mdl = ascii ''gpt-4o''" by simp
  from l have "r = \<lparr>resStatus = 500, resContentType = Some (ascii ''application/json''),
          resText = ascii ''boom''\<rparr>"
    by (simp add: jsonResponse_def)
  with e have e': "JStr (ascii ''boom'') =
     preferredMessage testEnv
       (responseJson testEnv \<lparr>resStatus = 500, resContentType = Some (ascii ''application/json''),
          resText = ascii ''boom''\<rparr>) (ascii ''boom'')" by simp
  from t have t': "[ascii ''gpt-4o'', ascii ''gpt-4o-mini''] =
     ascii ''gpt-4o'' # getModelFallbacks (ascii ''gpt-4o'')" unfolding mdl .
  show ?thesis by (intro conjI) (rule run_boom e' m t')+
qed

lemma run_gemini:
  "handler testEnv
     (postRequest (Some (ascii ''Bearer t'')) (ascii ''gemini-1.5-pro'') (ascii ''You are helpful'')
        (ascii ''hi'') None)
     [jsonResponse 200 abBody] =
   (Replied \<lparr>statusCode = 200, jsonBody = Generated (JStr (ascii ''ab'')) (ascii ''gemini-1.5-pro'')\<rparr>,
    [(generateRequest (ascii ''t'') (ascii ''You are helpful'') (ascii ''hi''),
      jsonResponse 200 abBody)])"
proof -
  let ?f = "\<lparr>fModel = ascii ''gemini-1.5-pro'', fSystem = ascii ''You are helpful'',
           fPrompt = ascii ''hi'', fThinking = False,
           fProxy = ascii ''https://api.vectorengine.ai''\<rparr>"
  have e: "endpointOf ?f = ascii ''https://api.vectorengine.ai''"
    by (simp add: endpointOf_def) (simp add: ascii_def)
  have h: "ascii ''api.vectorengine.ai'' \<noteq> ascii ''generativelanguage.googleapis.com''"
    by (simp add: ascii_def)
  have th: "\<not> includesStr (ascii ''gemini-1.5-pro'') (ascii ''thinking'')"
    by (simp add: startsWith_def ascii_def)
  have pt: "partsText testEnv (responseJson testEnv
       \<lparr>resStatus = 200, resContentType = Some (ascii ''application/json''), resText = abBody\<rparr>)
     = Some (ascii ''ab'')"
    unfolding json_literals
    by (simp add: partsText_def orElseV_def) (simp add: ascii_def)
  have g: "geminiBranch testEnv (ascii ''https://api.vectorengine.ai'') (ascii ''t'')
      (ascii ''gemini-1.5-pro'') (ascii ''You are helpful'') (ascii ''hi'') False
      [jsonResponse 200 abBody] =
    (Inr \<lparr>statusCode = 200, jsonBody = Generated (JStr (ascii ''ab'')) (ascii ''gemini-1.5-pro'')\<rparr>,
     [(generateRequest (ascii ''t'') (ascii ''You are helpful'') (ascii ''hi''),
      jsonResponse 200 abBody)])"
    using h th pt
    by (simp add: geminiBranch_def url_literals[unfolded generateContentUrl_def] parse_literals
        Let_def fetch_script jsonResponse_def resOk_literals generateRequest_def
        responseJson_def)
  have r: "respond testEnv (ascii ''t'') ?f [jsonResponse 200 abBody] =
     (\<lparr>statusCode = 200, jsonBody = Generated (JStr (ascii ''ab'')) (ascii ''gemini-1.5-pro'')\<rparr>,
      [(generateRequest (ascii ''t'') (ascii ''You are helpful'') (ascii ''hi''),
        jsonResponse 200 abBody)])"
    by (simp add: respond_unfold e base_literal isOpenAI_literals literal_nonempty g)
  show ?thesis
    unfolding handler_read[OF postRequest_fields(1) postRequest_read(1)] postRequest_fields
      token_literals normalize_literals r
    by simp
qed

text \<open>
  A Gemini request without a credential: no upstream call is made.
\<close>

theorem gemini_single_call_counterexample:
  "requestModel testEnv (postRequest None (ascii ''gemini-1.5-pro'')
       (ascii ''You are helpful'') (ascii ''hi'') None) = Some (ascii ''gemini-1.5-pro'') \<and>
   \<not> isOpenAI (ascii ''gemini-1.5-pro'') \<and>
   handler testEnv
     (postRequest None (ascii ''gemini-1.5-pro'') (ascii ''You are helpful'') (ascii ''hi'') None)
     [jsonResponse 200 abBody] =
   (Replied \<lparr>statusCode = 401, jsonBody = ErrorOnly (ascii ''Missing Proxy Token'')\<rparr>, [])"
proof -
  let ?r = "postRequest None (ascii ''gemini-1.5-pro'') (ascii ''You are helpful'') (ascii ''hi'') None"
  have "handler testEnv ?r [jsonResponse 200 abBody] = (Replied missingToken, [])"
    by (rule handler_no_token[OF postRequest_fields(1) postRequest_read(1)])
       (simp_all add: postRequest_fields token_literals normalize_literals literal_nonempty)
  then show ?thesis
    by (simp add: missingToken_def postRequest_fields normalize_literals isOpenAI_literals)
qed

theorem gemini_single_call_witness:
  "requestModel testEnv (postRequest (Some (ascii ''Bearer t'')) (ascii ''gemini-1.5-pro'')
       (ascii ''You are helpful'') (ascii ''hi'') None) = Some (ascii ''gemini-1.5-pro'') \<and>
   \<not> isOpenAI (ascii ''gemini-1.5-pro'') \<and>
   handler testEnv
     (postRequest (Some (ascii ''Bearer t'')) (ascii ''gemini-1.5-pro'') (ascii ''You are helpful'')
        (ascii ''hi'') None)
     [jsonResponse 200 abBody] =
   (Replied \<lparr>statusCode = 200, jsonBody = Generated (JStr (ascii ''ab'')) (ascii ''gemini-1.5-pro'')\<rparr>,
    [(generateRequest (ascii ''t'') (ascii ''You are helpful'') (ascii ''hi''),
      jsonResponse 200 abBody)]) \<and>
   responseParts (responseJson testEnv
       \<lparr>resStatus = 200, resContentType = Some (ascii ''application/json''), resText = abBody\<rparr>) =
     Some (JArr [JObj [(ascii ''text'', JStr (ascii ''a''))],
                 JObj [(ascii ''text'', JStr (ascii ''b''))]]) \<and>
   concatTexts [JObj [(ascii ''text'', JStr (ascii ''a''))],
                JObj [(ascii ''text'', JStr (ascii ''b''))] :: nat json] = ascii ''ab''"
proof -
  let ?r = "postRequest (Some (ascii ''Bearer t'')) (ascii ''gemini-1.5-pro'')
       (ascii ''You are helpful'') (ascii ''hi'') None"
  let ?w = "[jsonResponse 200 abBody]"
  let ?m = "ascii ''gemini-1.5-pro''"
  let ?res = "\<lparr>resStatus = 200, resContentType = Some (ascii ''application/json''), resText = abBody\<rparr>"
  let ?ps = "[JObj [(ascii ''text'', JStr (ascii ''a''))],
              JObj [(ascii ''text'', JStr (ascii ''b''))]] :: nat json list"
  have v: "httpMethod ?r = ascii ''POST''" "requestModel testEnv ?r = Some ?m" "?m \<noteq> []"
    "requestSystem testEnv ?r = Some (ascii ''You are helpful'')" "ascii ''You are helpful'' \<noteq> []"
    "requestPrompt testEnv ?r = Some (ascii ''hi'')" "ascii ''hi'' \<noteq> []"
    "requestToken ?r \<noteq> []" "\<not> isOpenAI ?m"
    "requestEndpoint testEnv ?r = Some (ascii ''https://api.vectorengine.ai'')"
    by (simp_all add: postRequest_fields postRequest_endpoint token_literals normalize_literals
        literal_nonempty isOpenAI_literals)
  have b: "getUpstreamBase testEnv (ascii ''https://api.vectorengine.ai'') =
      Inr (ascii ''https://api.vectorengine.ai'')"
    by (simp add: base_literal)
  have u: "parseURL testEnv (generateContentUrl (ascii ''https://api.vectorengine.ai'') ?m)
      = Inr \<lparr>hostname = ascii ''api.vectorengine.ai'',
          href = ascii ''https://api.vectorengine.ai/v1beta/models/gemini-1.5-pro:generateContent''\<rparr>"
    by (simp add: url_literals parse_literals)
  obtain out tr where h: "handler testEnv ?r ?w = (out, tr)" by (cases "handler testEnv ?r ?w")
  from gemini_single_call[OF v b u h] obtain rq rp where
    o: "out = Replied rp"
    and tr: "tr = [(rq, fst (fetch testEnv rq ?w))]"
    and ok: "\<forall>r. fst (fetch testEnv rq ?w) = Resp r \<and> resOk r \<longrightarrow>
              (\<forall>ps. responseParts (responseJson testEnv r) = Some (JArr ps) \<and>
                    list_all (\<lambda>p. textField p \<noteq> None) ps \<longrightarrow>
                 rp = \<lparr>statusCode = 200,
                       jsonBody = Generated (JStr (concatTexts ps)) ?m\<rparr>)"
    by blast
  have f: "fst (fetch testEnv rq ?w) = Resp ?res" by (simp add: fetch_script jsonResponse_def)
  have p: "responseParts (responseJson testEnv ?res) = Some (JArr ?ps)"
    unfolding json_literals by (simp add: responseParts_def)
  have l: "list_all (\<lambda>p. textField p \<noteq> None) ?ps" by simp
  have c: "concatTexts ?ps = ascii ''ab''" by (simp add: concatTexts_def) (simp add: ascii_def)
  have "rp = \<lparr>statusCode = 200, jsonBody = Generated (JStr (concatTexts ?ps)) ?m\<rparr>"
    using ok f p l resOk_literals(1) by blast
  then have "fst (handler testEnv ?r ?w) =
      Replied \<lparr>statusCode = 200, jsonBody = Generated (JStr (ascii ''ab'')) ?m\<rparr>"
    using h o c by simp
  show ?thesis by (intro conjI) (rule v(2) v(9) run_gemini p c)+
qed

end
